theory Spec2Isabelle
  imports Main "HOL-Library.AList" "HOL-Library.Char_ord" "HOL-Library.List_Lexorder"
    "HOL-Library.Multiset" "HOL-Library.Word"
begin

section \<open>Python values used by \<^verbatim>\<open>proj2_nps.py\<close>\<close>

text \<open>
  Python strings are lists of code points. They are modelled by \<^typ>\<open>string\<close>, every
  \<^typ>\<open>char\<close> standing for the code point of the same number, so the model covers the
  texts whose code points are below 256. The order of \<^typ>\<open>string\<close> (lexicographic, by
  code point) is the order Python's \<^verbatim>\<open>list.sort\<close> uses on \<^verbatim>\<open>str\<close>.

  An exception is a value of \<open>error\<close>; a function that may raise returns
  \<open>error + 'a\<close>, with \<open>Inl\<close> for the exception.
\<close>

datatype error =
    AttributeError
  | KeyError
  | TypeError
  | IndexError
  | ValueError
  | FileNotFoundError
  | PermissionError
  | JSONDecodeError
  | RequestException

text \<open>A Python \<^verbatim>\<open>dict\<close> with \<^verbatim>\<open>str\<close> keys: the items in insertion order.\<close>

type_synonym 'v dict = "(string \<times> 'v) list"

definition dict_keys :: "'v dict \<Rightarrow> string list" where
  "dict_keys d = map fst d"

text \<open>\<^verbatim>\<open>d[k]\<close>: the value, or \<^verbatim>\<open>KeyError\<close>.\<close>

definition dict_getitem :: "'v dict \<Rightarrow> string \<Rightarrow> error + 'v" where
  "dict_getitem d k = (case map_of d k of None \<Rightarrow> Inl KeyError | Some v \<Rightarrow> Inr v)"

text \<open>\<^verbatim>\<open>d[k] = v\<close>: an existing key keeps its place, a new key goes last.\<close>

definition dict_setitem :: "'v dict \<Rightarrow> string \<Rightarrow> 'v \<Rightarrow> 'v dict" where
  "dict_setitem d k v = AList.update k v d"

text \<open>The values of the query parameters: \<^verbatim>\<open>str\<close> and \<^verbatim>\<open>int\<close>.\<close>

datatype pyval = PStr string | PInt int

definition digit_char :: "nat \<Rightarrow> char" where
  "digit_char d = char_of (48 + d)"

fun str_nat :: "nat \<Rightarrow> string" where
  "str_nat n = (if n < 10 then [digit_char n] else str_nat (n div 10) @ [digit_char (n mod 10)])"

declare str_nat.simps [simp del]

definition str_int :: "int \<Rightarrow> string" where
  "str_int i = (if i < 0 then CHR ''-'' # str_nat (nat (- i)) else str_nat (nat i))"

text \<open>What an f-string puts for \<^verbatim>\<open>{v}\<close>: \<^verbatim>\<open>str(v)\<close>.\<close>

fun py_str :: "pyval \<Rightarrow> string" where
  "py_str (PStr s) = s"
| "py_str (PInt i) = str_int i"

text \<open>\<^verbatim>\<open>sep.join(xs)\<close>.\<close>

fun join :: "string \<Rightarrow> string list \<Rightarrow> string" where
  "join sep [] = []"
| "join sep [x] = x"
| "join sep (x # y # ys) = x @ sep @ join sep (y # ys)"

section \<open>The cache key: \<^verbatim>\<open>construct_unique_key\<close>\<close>

text \<open>
  \<^verbatim>\<open>
  param_strings = []
  connector = '_'
  for k in params.keys():
      param_strings.append(f'{k}_{params[k]}')
  param_strings.sort()
  unique_key = baseurl + connector +  connector.join(param_strings)
  return unique_key
  \<close>
  The loop runs over the keys and reads \<^verbatim>\<open>params[k]\<close> for each.
\<close>

fun param_strings_loop :: "pyval dict \<Rightarrow> string list \<Rightarrow> string list \<Rightarrow> error + string list" where
  "param_strings_loop params [] param_strings = Inr param_strings"
| "param_strings_loop params (k # ks) param_strings =
     (case dict_getitem params k of
        Inl e \<Rightarrow> Inl e
      | Inr v \<Rightarrow> param_strings_loop params ks (param_strings @ [k @ ''_'' @ py_str v]))"

definition construct_unique_key :: "string \<Rightarrow> pyval dict \<Rightarrow> error + string" where
  "construct_unique_key baseurl params =
     (let connector = ''_'' in
      case param_strings_loop params (dict_keys params) [] of
        Inl e \<Rightarrow> Inl e
      | Inr param_strings \<Rightarrow> Inr (baseurl @ connector @ join connector (sort param_strings)))"


section \<open>Strings: \<^verbatim>\<open>str.strip\<close>, \<^verbatim>\<open>str.lower\<close>, \<^verbatim>\<open>str.isnumeric\<close>, \<^verbatim>\<open>int\<close>\<close>

text \<open>
  The methods of \<^verbatim>\<open>str\<close> the program calls, on code points below 256. White space is
  what \<^verbatim>\<open>str.isspace\<close> accepts there: 9 to 13, 28 to 32, 133 and 160.
\<close>

definition isspace :: "char \<Rightarrow> bool" where
  "isspace c =
     (let n = (of_char c :: nat)
      in (9 \<le> n \<and> n \<le> 13) \<or> (28 \<le> n \<and> n \<le> 32) \<or> n = 133 \<or> n = 160)"

definition strip :: "string \<Rightarrow> string" where
  "strip s = rev (dropWhile isspace (rev (dropWhile isspace s)))"

text \<open>Upper-case letters below 256: A to Z, and 192 to 222 without the multiplication sign.\<close>

definition lower_char :: "char \<Rightarrow> char" where
  "lower_char c =
     (let n = (of_char c :: nat)
      in if (65 \<le> n \<and> n \<le> 90) \<or> (192 \<le> n \<and> n \<le> 222 \<and> n \<noteq> 215)
         then char_of (n + 32) else c)"

definition lower :: "string \<Rightarrow> string" where
  "lower s = map lower_char s"

definition isdigit_char :: "char \<Rightarrow> bool" where
  "isdigit_char c = (let n = (of_char c :: nat) in 48 \<le> n \<and> n \<le> 57)"

text \<open>
  Numeric characters below 256: the ten digits, the superscripts one, two and three, and
  the fractions one quarter, one half and three quarters.
\<close>

definition isnumeric_char :: "char \<Rightarrow> bool" where
  "isnumeric_char c =
     (let n = (of_char c :: nat)
      in isdigit_char c \<or> n = 178 \<or> n = 179 \<or> n = 185 \<or> n = 188 \<or> n = 189 \<or> n = 190)"

definition isnumeric :: "string \<Rightarrow> bool" where
  "isnumeric s = (s \<noteq> [] \<and> list_all isnumeric_char s)"

definition digit_value :: "char \<Rightarrow> int" where
  "digit_value c = int (of_char c) - 48"

text \<open>
  \<^verbatim>\<open>int(s)\<close> for a string that passed \<^verbatim>\<open>isnumeric\<close>: its decimal value when every
  character is a digit; a superscript or a fraction is numeric and no digit, and
  \<^verbatim>\<open>int\<close> raises \<^verbatim>\<open>ValueError\<close>. (The interpreter's bound on the number of digits it
  converts, when one is set, is left out.)
\<close>

definition py_int :: "string \<Rightarrow> error + int" where
  "py_int s =
     (if s \<noteq> [] \<and> list_all isdigit_char s
      then Inr (foldl (\<lambda>acc c. 10 * acc + digit_value c) 0 s)
      else Inl ValueError)"

text \<open>\<^verbatim>\<open>xs[i]\<close> on a list: a negative index counts from the end.\<close>

definition list_getitem :: "'a list \<Rightarrow> int \<Rightarrow> error + 'a" where
  "list_getitem xs i =
     (if 0 \<le> i \<and> i < int (length xs) then Inr (xs ! nat i)
      else if i < 0 \<and> - int (length xs) \<le> i then Inr (xs ! nat (int (length xs) + i))
      else Inl IndexError)"

section \<open>JSON values\<close>

text \<open>
  What \<^verbatim>\<open>json.loads\<close> returns and \<^verbatim>\<open>json.dumps\<close> takes: \<^verbatim>\<open>None\<close>, a \<^verbatim>\<open>bool\<close>, an
  \<^verbatim>\<open>int\<close>, a \<^verbatim>\<open>float\<close>, a \<^verbatim>\<open>str\<close>, a \<^verbatim>\<open>list\<close> or a \<^verbatim>\<open>dict\<close> with \<^verbatim>\<open>str\<close> keys. A
  \<^verbatim>\<open>float\<close> is a double, given by its 64 bits: sign, exponent, fraction.
\<close>

datatype json =
    JNull
  | JBool bool
  | JInt int
  | JFloat "64 word"
  | JStr string
  | JList "json list"
  | JDict "(string \<times> json) list"

text \<open>
  The truth value of a Python object, as \<^verbatim>\<open>if x:\<close> tests it. The floats that are false
  are \<^verbatim>\<open>0.0\<close> and \<^verbatim>\<open>-0.0\<close>: all bits zero, but for the sign.
\<close>

fun truthy :: "json \<Rightarrow> bool" where
  "truthy JNull = False"
| "truthy (JBool b) = b"
| "truthy (JInt i) = (i \<noteq> 0)"
| "truthy (JFloat b) = (b \<noteq> 0 \<and> b \<noteq> 0x8000000000000000)"
| "truthy (JStr s) = (s \<noteq> [])"
| "truthy (JList xs) = (xs \<noteq> [])"
| "truthy (JDict d) = (d \<noteq> [])"

text \<open>
  \<^verbatim>\<open>x[k]\<close> with a \<^verbatim>\<open>str\<close> key: a dict looks the key up (\<^verbatim>\<open>KeyError\<close> when absent),
  every other value raises \<^verbatim>\<open>TypeError\<close>.
\<close>

fun getitem_str :: "json \<Rightarrow> string \<Rightarrow> error + json" where
  "getitem_str (JDict d) k = dict_getitem d k"
| "getitem_str _ k = Inl TypeError"

text \<open>
  \<^verbatim>\<open>x[i]\<close> with \<^verbatim>\<open>i\<close> from \<^verbatim>\<open>range(len(x))\<close>: a list or a string gives its element,
  a dict has no \<^verbatim>\<open>int\<close> key.
\<close>

fun getitem_nat :: "json \<Rightarrow> nat \<Rightarrow> error + json" where
  "getitem_nat (JList xs) i = (if i < length xs then Inr (xs ! i) else Inl IndexError)"
| "getitem_nat (JStr s) i = (if i < length s then Inr (JStr [s ! i]) else Inl IndexError)"
| "getitem_nat (JDict d) i = Inl KeyError"
| "getitem_nat _ i = Inl TypeError"

fun py_len :: "json \<Rightarrow> error + nat" where
  "py_len (JList xs) = Inr (length xs)"
| "py_len (JStr s) = Inr (length s)"
| "py_len (JDict d) = Inr (length d)"
| "py_len _ = Inl TypeError"

section \<open>The parsed document: BeautifulSoup's tree\<close>

text \<open>
  A tag has a name, attributes and children; an attribute value is a string, or a list of
  strings for the multi-valued attributes (\<^verbatim>\<open>class\<close>); a string is a piece of the
  page's text (comments and scripts, which \<^verbatim>\<open>.text\<close> leaves out, are not in the tree).
  The functions below are the operations of BeautifulSoup the program uses, on that tree.
\<close>

datatype attr_value = Single string | Multi "string list"

datatype node = Tag string "(string \<times> attr_value) list" "node list" | NavigableString string

text \<open>All nodes below a node, in document order.\<close>

fun descendants :: "node \<Rightarrow> node list" where
  "descendants (Tag nm attrs cs) = concat (map (\<lambda>c. c # descendants c) cs)"
| "descendants (NavigableString s) = []"

text \<open>\<^verbatim>\<open>tag.text\<close>: the strings below the tag, concatenated.\<close>

fun get_text :: "node \<Rightarrow> string" where
  "get_text (Tag nm attrs cs) = concat (map get_text cs)"
| "get_text (NavigableString s) = s"

text \<open>
  An attribute value against a search string: a string must be equal to it; of a list,
  one item must be equal to it, or the items joined by a space; an absent attribute
  never matches.
\<close>

fun attr_matches :: "attr_value option \<Rightarrow> string \<Rightarrow> bool" where
  "attr_matches None m = False"
| "attr_matches (Some (Single s)) m = (s = m)"
| "attr_matches (Some (Multi ws)) m = (m \<in> set ws \<or> join '' '' ws = m)"

fun matches :: "string option \<Rightarrow> (string \<times> string) list \<Rightarrow> node \<Rightarrow> bool" where
  "matches nm_opt wanted (Tag nm attrs cs) =
     ((case nm_opt of None \<Rightarrow> True | Some n \<Rightarrow> n = nm) \<and>
      list_all (\<lambda>(a, m). attr_matches (map_of attrs a) m) wanted)"
| "matches nm_opt wanted (NavigableString s) = False"

text \<open>\<^verbatim>\<open>tag.find(name, **attrs)\<close>: the first match below the tag, or \<^verbatim>\<open>None\<close>.\<close>

definition soup_find :: "string option \<Rightarrow> (string \<times> string) list \<Rightarrow> node \<Rightarrow> node option" where
  "soup_find nm_opt wanted n = List.find (matches nm_opt wanted) (descendants n)"

text \<open>\<^verbatim>\<open>tag.find_all(name, **attrs)\<close>: every match below the tag.\<close>

definition soup_find_all :: "string option \<Rightarrow> (string \<times> string) list \<Rightarrow> node \<Rightarrow> node list" where
  "soup_find_all nm_opt wanted n = filter (matches nm_opt wanted) (descendants n)"

text \<open>\<^verbatim>\<open>x.text\<close> where \<^verbatim>\<open>x\<close> is the result of \<^verbatim>\<open>find\<close>: \<^verbatim>\<open>None\<close> has no attribute \<^verbatim>\<open>text\<close>.\<close>

definition text_of :: "node option \<Rightarrow> error + string" where
  "text_of r = (case r of None \<Rightarrow> Inl AttributeError | Some n \<Rightarrow> Inr (get_text n))"

text \<open>\<^verbatim>\<open>tag[a]\<close>: the attribute, \<^verbatim>\<open>KeyError\<close> when the tag has none of that name.\<close>

fun tag_getitem :: "node \<Rightarrow> string \<Rightarrow> error + attr_value" where
  "tag_getitem (Tag nm attrs cs) a =
     (case map_of attrs a of None \<Rightarrow> Inl KeyError | Some v \<Rightarrow> Inr v)"
| "tag_getitem (NavigableString s) a = Inl TypeError"

section \<open>The environment and the state of the process\<close>

text \<open>
  The libraries and the outside world are parameters of the model:
  \<^item> \<open>json_dumps\<close>, \<open>json_loads\<close>: \<^verbatim>\<open>json.dumps\<close> and \<^verbatim>\<open>json.loads\<close> (\<open>None\<close> when the
    text is no JSON and \<^verbatim>\<open>json.loads\<close> raises);
  \<^item> \<open>html_parser\<close>: the tree \<^verbatim>\<open>BeautifulSoup(text, 'html.parser')\<close> builds;
  \<^item> \<open>http_get\<close>: the body of the reply to a GET request, given the requests sent before
    it (\<open>None\<close> when \<^verbatim>\<open>requests.get\<close> raises);
  \<^item> \<open>api_key\<close>: \<^verbatim>\<open>secrets.API_KEY\<close>;
  \<^item> \<open>format_value\<close>: \<^verbatim>\<open>str(x)\<close> of a decoded JSON value, as an f-string inserts it.
\<close>

datatype request = Get string "pyval dict"

record env =
  json_dumps :: "json \<Rightarrow> string"
  json_loads :: "string \<Rightarrow> json option"
  html_parser :: "string \<Rightarrow> node"
  http_get :: "request list \<Rightarrow> request \<Rightarrow> string option"
  api_key :: string
  format_value :: "json \<Rightarrow> string"

text \<open>
  The state: the module-level \<^verbatim>\<open>CACHE_DICT\<close>, the file \<^verbatim>\<open>nps_cache.json\<close> (its text,
  \<open>None\<close> when there is no such file, and whether the process may read and write it),
  the requests sent so far, the seconds slept, and the lines printed.
\<close>

record world =
  CACHE_DICT :: json
  file_contents :: "string option"
  file_readable :: bool
  file_writable :: bool
  requests_sent :: "request list"
  seconds_slept :: nat
  printed :: "string list"

definition print :: "string \<Rightarrow> world \<Rightarrow> world" where
  "print line w = w\<lparr>printed := printed w @ [line]\<rparr>"

definition sleep :: "nat \<Rightarrow> world \<Rightarrow> world" where
  "sleep n w = w\<lparr>seconds_slept := seconds_slept w + n\<rparr>"

text \<open>
  \<^verbatim>\<open>requests.get(url, params=params)\<close>: the request is sent, and the reply's body comes
  back or the call raises.
\<close>

definition requests_get :: "env \<Rightarrow> string \<Rightarrow> pyval dict \<Rightarrow> world \<Rightarrow> (error + string) \<times> world" where
  "requests_get E url params w =
     (let w' = w\<lparr>requests_sent := requests_sent w @ [Get url params]\<rparr>
      in case http_get E (requests_sent w) (Get url params) of
           None \<Rightarrow> (Inl RequestException, w')
         | Some body \<Rightarrow> (Inr body, w'))"

definition BASE_URL :: string where
  "BASE_URL = ''https://www.nps.gov''"

definition STATES_INDEX_PATH :: string where
  "STATES_INDEX_PATH = ''/index.htm''"

section \<open>The cache file: \<^verbatim>\<open>open_cache\<close>, \<^verbatim>\<open>save_cache\<close>\<close>

text \<open>
  The body of the \<^verbatim>\<open>try\<close> of \<^verbatim>\<open>open_cache\<close>:
  \<^verbatim>\<open>
  cache_file = open(CACHE_FILE_NAME, 'r')
  cache_file_contents = cache_file.read()
  cache = json.loads(cache_file_contents)
  cache_file.close()
  \<close>
\<close>

definition read_cache_file :: "env \<Rightarrow> world \<Rightarrow> error + json" where
  "read_cache_file E w =
     (case file_contents w of
        None \<Rightarrow> Inl FileNotFoundError
      | Some cache_file_contents \<Rightarrow>
          if \<not> file_readable w then Inl PermissionError
          else (case json_loads E cache_file_contents of
                  None \<Rightarrow> Inl JSONDecodeError
                | Some cache \<Rightarrow> Inr cache))"

text \<open>\<^verbatim>\<open>try: ... except: cache = {}\<close>, then \<^verbatim>\<open>return cache\<close>.\<close>

definition open_cache :: "env \<Rightarrow> world \<Rightarrow> json" where
  "open_cache E w = (case read_cache_file E w of Inl e \<Rightarrow> JDict [] | Inr cache \<Rightarrow> cache)"

text \<open>
  \<^verbatim>\<open>
  cache_file = open(CACHE_FILE_NAME, 'w')
  contents_to_write = json.dumps(cache)
  cache_file.write(contents_to_write)
  cache_file.close()
  \<close>
  Opening for writing creates the file or empties it; the whole of \<^verbatim>\<open>cache\<close> is
  written.
\<close>

definition save_cache :: "env \<Rightarrow> json \<Rightarrow> world \<Rightarrow> error + world" where
  "save_cache E cache w =
     (if \<not> file_writable w then Inl PermissionError
      else Inr (w\<lparr>file_contents := Some (json_dumps E cache)\<rparr>))"

section \<open>The fetch through the cache: \<^verbatim>\<open>make_url_request_using_cache\<close>\<close>

text \<open>
  \<^verbatim>\<open>
  if (url in cache.keys()):
      print("Using cache")
      return cache[url]
  else:
      print("Fetching")
      time.sleep(1)
      response = requests.get(url)
      cache[url] = response.text
      save_cache(cache)
      return cache[url]
  \<close>
  \<^verbatim>\<open>cache\<close> is an argument and is updated in place: the function returns the result, the
  cache as the call leaves it, and the state. A cache that is no dict has no \<^verbatim>\<open>keys\<close>.
\<close>

definition make_url_request_using_cache ::
    "env \<Rightarrow> string \<Rightarrow> json \<Rightarrow> world \<Rightarrow> (error + json) \<times> json \<times> world" where
  "make_url_request_using_cache E url cache w =
     (case cache of
        JDict d \<Rightarrow>
          if url \<in> set (dict_keys d) then
            (let w1 = print ''Using cache'' w
             in (dict_getitem d url, cache, w1))
          else
            (let w1 = print ''Fetching'' w;
                 w2 = sleep 1 w1
             in case requests_get E url [] w2 of
                  (Inl e, w3) \<Rightarrow> (Inl e, cache, w3)
                | (Inr response_text, w3) \<Rightarrow>
                    (let cache' = JDict (dict_setitem d url (JStr response_text))
                     in case save_cache E cache' w3 of
                          Inl e \<Rightarrow> (Inl e, cache', w3)
                        | Inr w4 \<Rightarrow> (getitem_str cache' url, cache', w4)))
      | _ \<Rightarrow> (Inl AttributeError, cache, w))"

text \<open>\<^verbatim>\<open>CACHE_DICT = open_cache()\<close> at module level, when the module is loaded.\<close>

definition load_module :: "env \<Rightarrow> world \<Rightarrow> world" where
  "load_module E w = w\<lparr>CACHE_DICT := open_cache E w\<rparr>"

text \<open>
  The callers pass the module-level \<^verbatim>\<open>CACHE_DICT\<close>: the update in place is an update
  of that object.
\<close>

definition fetch_with_CACHE_DICT :: "env \<Rightarrow> string \<Rightarrow> world \<Rightarrow> (error + json) \<times> world" where
  "fetch_with_CACHE_DICT E url w =
     (case make_url_request_using_cache E url (CACHE_DICT w) w of
        (r, cache', w') \<Rightarrow> (r, w'\<lparr>CACHE_DICT := cache'\<rparr>))"

text \<open>\<^verbatim>\<open>BeautifulSoup(text, 'html.parser')\<close>; the constructor takes markup, that is text.\<close>

definition BeautifulSoup :: "env \<Rightarrow> json \<Rightarrow> error + node" where
  "BeautifulSoup E markup =
     (case markup of JStr text \<Rightarrow> Inr (html_parser E text) | _ \<Rightarrow> Inl TypeError)"

section \<open>The scraped records\<close>

record NationalSite =
  category :: string
  name :: string
  address :: string
  zipcode :: string
  phone :: string

text \<open>\<^verbatim>\<open>f"{self.name} ({self.category}): {self.address} {self.zipcode}"\<close>\<close>

definition info :: "NationalSite \<Rightarrow> string" where
  "info self = name self @ '' ('' @ category self @ ''): '' @ address self @ '' '' @ zipcode self"

subsection \<open>\<^verbatim>\<open>build_state_url_dict\<close>\<close>

text \<open>
  \<^verbatim>\<open>
  for state in states_list:
      state_link_tag = state.find('a')
      state_url_path = state_link_tag['href']
      state_url = BASE_URL + state_url_path
      state_name = state_link_tag.text.strip().lower()
      states_dict[state_name] = state_url
  \<close>
  \<^verbatim>\<open>None['href']\<close> raises \<^verbatim>\<open>TypeError\<close>, and so does \<^verbatim>\<open>BASE_URL + x\<close> when \<^verbatim>\<open>x\<close> is a list.
\<close>

fun states_loop :: "node list \<Rightarrow> string dict \<Rightarrow> error + string dict" where
  "states_loop [] states_dict = Inr states_dict"
| "states_loop (state # rest) states_dict =
     (case soup_find (Some ''a'') [] state of
        None \<Rightarrow> Inl TypeError
      | Some state_link_tag \<Rightarrow>
          (case tag_getitem state_link_tag ''href'' of
             Inl e \<Rightarrow> Inl e
           | Inr (Multi ws) \<Rightarrow> Inl TypeError
           | Inr (Single state_url_path) \<Rightarrow>
               (let state_url = BASE_URL @ state_url_path;
                    state_name = lower (strip (get_text state_link_tag))
                in states_loop rest (dict_setitem states_dict state_name state_url))))"

text \<open>
  \<^verbatim>\<open>
  states_dict = {}
  states_dropdown = soup.find(class_='dropdown-menu SearchBar-keywordSearch')
  states_list = states_dropdown.find_all('li')
  \<close>
  and the loop.
\<close>

definition states_of_soup :: "node \<Rightarrow> error + string dict" where
  "states_of_soup soup =
     (case soup_find None [(''class'', ''dropdown-menu SearchBar-keywordSearch'')] soup of
        None \<Rightarrow> Inl AttributeError
      | Some states_dropdown \<Rightarrow>
          states_loop (soup_find_all (Some ''li'') [] states_dropdown) [])"

definition build_state_url_dict :: "env \<Rightarrow> world \<Rightarrow> (error + string dict) \<times> world" where
  "build_state_url_dict E w =
     (let index_url = BASE_URL @ STATES_INDEX_PATH
      in case fetch_with_CACHE_DICT E index_url w of
           (Inl e, w') \<Rightarrow> (Inl e, w')
         | (Inr index_text, w') \<Rightarrow>
             (case BeautifulSoup E index_text of
                Inl e \<Rightarrow> (Inl e, w')
              | Inr soup \<Rightarrow> (states_of_soup soup, w')))"

subsection \<open>\<^verbatim>\<open>get_site_instance\<close>\<close>

text \<open>
  \<^verbatim>\<open>
  try:
      site_city = site_soup.find('span', itemprop='addressLocality').text.strip()
      site_state = site_soup.find('span', itemprop='addressRegion').text.strip()
      site_address = site_city + ', ' + site_state
  except:
      site_address = 'No address'
  \<close>
\<close>

definition site_address_of :: "node \<Rightarrow> string" where
  "site_address_of site_soup =
     (case text_of (soup_find (Some ''span'') [(''itemprop'', ''addressLocality'')] site_soup) of
        Inl e \<Rightarrow> ''No address''
      | Inr t1 \<Rightarrow>
          (let site_city = strip t1
           in case text_of (soup_find (Some ''span'') [(''itemprop'', ''addressRegion'')] site_soup) of
                Inl e \<Rightarrow> ''No address''
              | Inr t2 \<Rightarrow> (let site_state = strip t2 in site_city @ '', '' @ site_state)))"

text \<open>
  \<^verbatim>\<open>
  try:
      site_zip = site_soup.find('span', itemprop='postalCode').text.strip()
  except:
      site_zip = 'No zipcode'
  \<close>
\<close>

definition site_zip_of :: "node \<Rightarrow> string" where
  "site_zip_of site_soup =
     (case text_of (soup_find (Some ''span'') [(''itemprop'', ''postalCode'')] site_soup) of
        Inl e \<Rightarrow> ''No zipcode''
      | Inr t \<Rightarrow> strip t)"

text \<open>
  The extraction from the parsed page, in the order of the source: name, category,
  address, zip code, phone. The three lookups outside a \<^verbatim>\<open>try\<close> raise when \<^verbatim>\<open>find\<close>
  returns \<^verbatim>\<open>None\<close>.
\<close>

definition site_of_soup :: "node \<Rightarrow> error + NationalSite" where
  "site_of_soup site_soup =
     (case text_of (soup_find None [(''class'', ''Hero-title'')] site_soup) of
        Inl e \<Rightarrow> Inl e
      | Inr t1 \<Rightarrow>
          (let site_name = strip t1
           in case text_of (soup_find None [(''class'', ''Hero-designation'')] site_soup) of
                Inl e \<Rightarrow> Inl e
              | Inr t2 \<Rightarrow>
                  (let site_category = strip t2;
                       site_address = site_address_of site_soup;
                       site_zip = site_zip_of site_soup
                   in case text_of (soup_find (Some ''span'') [(''itemprop'', ''telephone'')] site_soup) of
                        Inl e \<Rightarrow> Inl e
                      | Inr t3 \<Rightarrow>
                          (let site_phone = strip t3
                           in Inr \<lparr>category = site_category, name = site_name,
                                   address = site_address, zipcode = site_zip,
                                   phone = site_phone\<rparr>))))"

definition get_site_instance :: "env \<Rightarrow> string \<Rightarrow> world \<Rightarrow> (error + NationalSite) \<times> world" where
  "get_site_instance E site_url w =
     (case fetch_with_CACHE_DICT E site_url w of
        (Inl e, w') \<Rightarrow> (Inl e, w')
      | (Inr site_text, w') \<Rightarrow>
          (case BeautifulSoup E site_text of
             Inl e \<Rightarrow> (Inl e, w')
           | Inr site_soup \<Rightarrow> (site_of_soup site_soup, w')))"

subsection \<open>\<^verbatim>\<open>get_sites_for_state\<close>\<close>

text \<open>
  \<^verbatim>\<open>
  for park in parks:
      park_link_tag = park.find('a')
      park_path = park_link_tag['href']
      park_url = BASE_URL + park_path
      site_instance = get_site_instance(park_url)
      list_of_sites.append(site_instance)
  \<close>
\<close>

fun parks_loop ::
    "env \<Rightarrow> node list \<Rightarrow> NationalSite list \<Rightarrow> world \<Rightarrow> (error + NationalSite list) \<times> world" where
  "parks_loop E [] list_of_sites w = (Inr list_of_sites, w)"
| "parks_loop E (park # rest) list_of_sites w =
     (case soup_find (Some ''a'') [] park of
        None \<Rightarrow> (Inl TypeError, w)
      | Some park_link_tag \<Rightarrow>
          (case tag_getitem park_link_tag ''href'' of
             Inl e \<Rightarrow> (Inl e, w)
           | Inr (Multi ws) \<Rightarrow> (Inl TypeError, w)
           | Inr (Single park_path) \<Rightarrow>
               (case get_site_instance E (BASE_URL @ park_path) w of
                  (Inl e, w') \<Rightarrow> (Inl e, w')
                | (Inr site_instance, w') \<Rightarrow>
                    parks_loop E rest (list_of_sites @ [site_instance]) w')))"

definition get_sites_for_state :: "env \<Rightarrow> string \<Rightarrow> world \<Rightarrow> (error + NationalSite list) \<times> world" where
  "get_sites_for_state E state_url w =
     (case fetch_with_CACHE_DICT E state_url w of
        (Inl e, w') \<Rightarrow> (Inl e, w')
      | (Inr state_text, w') \<Rightarrow>
          (case BeautifulSoup E state_text of
             Inl e \<Rightarrow> (Inl e, w')
           | Inr state_soup \<Rightarrow>
               parks_loop E
                 (soup_find_all (Some ''div'')
                    [(''class'', ''col-md-9 col-sm-9 col-xs-12 table-cell list_left'')] state_soup)
                 [] w'))"

section \<open>The nearby places\<close>

subsection \<open>\<^verbatim>\<open>get_nearby_places\<close>\<close>

definition mapquest_url :: string where
  "mapquest_url = ''http://www.mapquestapi.com/search/v2/radius''"

definition nearby_params :: "env \<Rightarrow> NationalSite \<Rightarrow> pyval dict" where
  "nearby_params E site_object =
     [(''key'', PStr (api_key E)),
      (''origin'', PStr (zipcode site_object)),
      (''radius'', PInt 10),
      (''units'', PStr ''m''),
      (''maxMatches'', PInt 10),
      (''ambiguities'', PStr ''ignore''),
      (''outFormat'', PStr ''json'')]"

text \<open>
  \<^verbatim>\<open>
  CACHE_DICT = open_cache()
  mapquest_url = 'http://www.mapquestapi.com/search/v2/radius'
  uniq_key = construct_unique_key(mapquest_url, params)
  if uniq_key in CACHE_DICT.keys():
      print('Using Cache')
      return CACHE_DICT[uniq_key]
  else:
      print('Fetching')
      CACHE_DICT[uniq_key] = requests.get(mapquest_url, params=params).json()
      save_cache(CACHE_DICT)
      return CACHE_DICT[uniq_key]
  \<close>
  The function has no \<^verbatim>\<open>global\<close> statement: the assignment makes \<^verbatim>\<open>CACHE_DICT\<close> a
  local variable, \<open>local_cache\<close> below, and the module-level \<^verbatim>\<open>CACHE_DICT\<close> is
  neither read nor written.
\<close>

definition get_nearby_places :: "env \<Rightarrow> NationalSite \<Rightarrow> world \<Rightarrow> (error + json) \<times> world" where
  "get_nearby_places E site_object w =
     (let params = nearby_params E site_object;
          local_cache = open_cache E w
      in case construct_unique_key mapquest_url params of
           Inl e \<Rightarrow> (Inl e, w)
         | Inr uniq_key \<Rightarrow>
             (case local_cache of
                JDict d \<Rightarrow>
                  if uniq_key \<in> set (dict_keys d) then
                    (let w1 = print ''Using Cache'' w
                     in (dict_getitem d uniq_key, w1))
                  else
                    (let w1 = print ''Fetching'' w
                     in case requests_get E mapquest_url params w1 of
                          (Inl e, w2) \<Rightarrow> (Inl e, w2)
                        | (Inr body, w2) \<Rightarrow>
                            (case json_loads E body of
                               None \<Rightarrow> (Inl JSONDecodeError, w2)
                             | Some reply \<Rightarrow>
                                 (let local_cache' = JDict (dict_setitem d uniq_key reply)
                                  in case save_cache E local_cache' w2 of
                                       Inl e \<Rightarrow> (Inl e, w2)
                                     | Inr w3 \<Rightarrow> (getitem_str local_cache' uniq_key, w3))))
              | _ \<Rightarrow> (Inl AttributeError, w)))"

subsection \<open>\<^verbatim>\<open>formatted_nearby_places\<close>\<close>

text \<open>\<^verbatim>\<open>results[i]['fields'][k]\<close>\<close>

definition result_field :: "json \<Rightarrow> nat \<Rightarrow> string \<Rightarrow> error + json" where
  "result_field results i k =
     (case getitem_nat results i of
        Inl e \<Rightarrow> Inl e
      | Inr entry \<Rightarrow>
          (case getitem_str entry ''fields'' of
             Inl e \<Rightarrow> Inl e
           | Inr entry_fields \<Rightarrow> getitem_str entry_fields k))"

text \<open>The four values one pass of the loop computes and prints.\<close>

record nearby_place =
  place_name :: json
  place_category :: json
  place_address :: json
  place_city :: json

text \<open>
  \<^verbatim>\<open>
  name = results[i]['fields']['name']
  if results[i]['fields']['group_sic_code_ext']:
      category = results[i]['fields']['group_sic_code_name_ext']
  else:
      category = 'no category'
  if results[i]['fields']['address']:
      address = results[i]['fields']['address']
  else:
      address = 'no address'
  if results[i]['fields']['city']:
      city = results[i]['fields']['city']
  else:
      city = 'no city'
  \<close>
\<close>

definition place_of_result :: "json \<Rightarrow> nat \<Rightarrow> error + nearby_place" where
  "place_of_result results i =
     (case result_field results i ''name'' of
        Inl e \<Rightarrow> Inl e
      | Inr nm \<Rightarrow>
     (case result_field results i ''group_sic_code_ext'' of
        Inl e \<Rightarrow> Inl e
      | Inr code \<Rightarrow>
     (case (if truthy code then result_field results i ''group_sic_code_name_ext''
            else Inr (JStr ''no category'')) of
        Inl e \<Rightarrow> Inl e
      | Inr cat \<Rightarrow>
     (case result_field results i ''address'' of
        Inl e \<Rightarrow> Inl e
      | Inr a \<Rightarrow>
     (case (if truthy a then result_field results i ''address''
            else Inr (JStr ''no address'')) of
        Inl e \<Rightarrow> Inl e
      | Inr addr \<Rightarrow>
     (case result_field results i ''city'' of
        Inl e \<Rightarrow> Inl e
      | Inr c \<Rightarrow>
     (case (if truthy c then result_field results i ''city''
            else Inr (JStr ''no city'')) of
        Inl e \<Rightarrow> Inl e
      | Inr cty \<Rightarrow>
          Inr \<lparr>place_name = nm, place_category = cat,
               place_address = addr, place_city = cty\<rparr>)))))))"

text \<open>\<^verbatim>\<open>f"- {name} ({category}): {address}, {city}"\<close>\<close>

definition place_line :: "env \<Rightarrow> nearby_place \<Rightarrow> string" where
  "place_line E p =
     ''- '' @ format_value E (place_name p) @ '' ('' @ format_value E (place_category p) @
     ''): '' @ format_value E (place_address p) @ '', '' @ format_value E (place_city p)"

text \<open>\<^verbatim>\<open>for i in range(len(results)):\<close> with the \<^verbatim>\<open>print\<close> at the end of each pass.\<close>

fun places_loop :: "env \<Rightarrow> json \<Rightarrow> nat list \<Rightarrow> world \<Rightarrow> (error + unit) \<times> world" where
  "places_loop E results [] w = (Inr (), w)"
| "places_loop E results (i # rest) w =
     (case place_of_result results i of
        Inl e \<Rightarrow> (Inl e, w)
      | Inr p \<Rightarrow> places_loop E results rest (print (place_line E p) w))"

definition formatted_nearby_places :: "env \<Rightarrow> json \<Rightarrow> world \<Rightarrow> (error + unit) \<times> world" where
  "formatted_nearby_places E api_resp w =
     (case getitem_str api_resp ''searchResults'' of
        Inl e \<Rightarrow> (Inl e, w)
      | Inr results \<Rightarrow>
          (case py_len results of
             Inl e \<Rightarrow> (Inl e, w)
           | Inr n \<Rightarrow> places_loop E results [0..<n] w))"

section \<open>The detail prompt of the main program\<close>

text \<open>
  One pass of the inner \<^verbatim>\<open>while True\<close>, after \<^verbatim>\<open>input\<close> has returned \<open>user_input\<close>.
  The part that can raise, inside the \<^verbatim>\<open>try\<close>:
  \<^verbatim>\<open>
  if int(user_input) <= int(len(state_sites)):
      choice_index = state_sites[int(user_input)-1]
      nearby_list = get_nearby_places(choice_index)
      print('-' * 50)
      print(f"Places near {choice_index.name}")
      print('-' * 50)
      formatted_nearby_places(nearby_list)
  else:
      print("Index out of range. Please enter a new number")
  \<close>
\<close>

definition detail_search ::
    "env \<Rightarrow> NationalSite list \<Rightarrow> string \<Rightarrow> world \<Rightarrow> (error + unit) \<times> world" where
  "detail_search E state_sites user_input w =
     (case py_int user_input of
        Inl e \<Rightarrow> (Inl e, w)
      | Inr n \<Rightarrow>
          if n \<le> int (length state_sites) then
            (case list_getitem state_sites (n - 1) of
               Inl e \<Rightarrow> (Inl e, w)
             | Inr choice_index \<Rightarrow>
                 (case get_nearby_places E choice_index w of
                    (Inl e, w1) \<Rightarrow> (Inl e, w1)
                  | (Inr nearby_list, w1) \<Rightarrow>
                      (let w2 = print (replicate 50 CHR ''-'') w1;
                           w3 = print (''Places near '' @ name choice_index) w2;
                           w4 = print (replicate 50 CHR ''-'') w3
                       in formatted_nearby_places E nearby_list w4)))
          else (Inr (), print ''Index out of range. Please enter a new number'' w))"

datatype loop_control = Break | Continue

text \<open>
  \<^verbatim>\<open>
  try:
      user_input = input("Choose the number for detail search or 'exit' or 'back': ")
      if user_input == 'exit':
          break
      elif user_input == 'back':
          break
      if user_input.isnumeric():
          ...
      else:
          break
  except:
      print("Error - please try again.")
  \<close>
  After \<open>Continue\<close> the loop runs again and asks for the next input.
\<close>

definition detail_prompt_pass ::
    "env \<Rightarrow> NationalSite list \<Rightarrow> string \<Rightarrow> world \<Rightarrow> loop_control \<times> world" where
  "detail_prompt_pass E state_sites user_input w =
     (if user_input = ''exit'' then (Break, w)
      else if user_input = ''back'' then (Break, w)
      else if isnumeric user_input then
        (case detail_search E state_sites user_input w of
           (Inl e, w') \<Rightarrow> (Continue, print ''Error - please try again.'' w')
         | (Inr u, w') \<Rightarrow> (Continue, w'))
      else (Break, w))"

section \<open>The entries of the region index, as the specification reads them\<close>


section \<open>An environment to run the program in\<close>

text \<open>
  A concrete environment, for running the definitions on inputs. Its JSON codec writes
  what \<^verbatim>\<open>json.dumps\<close> writes for the values of \<^typ>\<open>json\<close> without floats (separators
  \<^verbatim>\<open>", "\<close> and \<^verbatim>\<open>": "\<close>, every character outside the printable ASCII range escaped) and
  reads JSON texts of such values; the reader stops after as many nested values as the
  text has characters, which no text reaches. Floats are outside the examples: the codec
  writes \<^verbatim>\<open>NaN\<close> for each and reads none.
\<close>

definition hex_digit :: "nat \<Rightarrow> char" where
  "hex_digit d = (if d < 10 then char_of (48 + d) else char_of (87 + d))"

definition escape_char :: "char \<Rightarrow> string" where
  "escape_char c =
     (let n = (of_char c :: nat)
      in if c = CHR 0x22 then [CHR 0x5C, CHR 0x22]
         else if c = CHR 0x5C then [CHR 0x5C, CHR 0x5C]
         else if c = CHR 0x0A then [CHR 0x5C, CHR ''n'']
         else if c = CHR 0x0D then [CHR 0x5C, CHR ''r'']
         else if c = CHR 0x09 then [CHR 0x5C, CHR ''t'']
         else if c = CHR 0x08 then [CHR 0x5C, CHR ''b'']
         else if c = CHR 0x0C then [CHR 0x5C, CHR ''f'']
         else if 32 \<le> n \<and> n \<le> 126 then [c]
         else [CHR 0x5C, CHR ''u'', CHR ''0'', CHR ''0'', hex_digit (n div 16), hex_digit (n mod 16)])"

definition dumps_str :: "string \<Rightarrow> string" where
  "dumps_str s = [CHR 0x22] @ concat (map escape_char s) @ [CHR 0x22]"

fun example_dumps :: "json \<Rightarrow> string" where
  "example_dumps JNull = ''null''"
| "example_dumps (JBool b) = (if b then ''true'' else ''false'')"
| "example_dumps (JInt i) = str_int i"
| "example_dumps (JFloat b) = ''NaN''"
| "example_dumps (JStr s) = dumps_str s"
| "example_dumps (JList xs) = ''['' @ join '', '' (map example_dumps xs) @ '']''"
| "example_dumps (JDict d) =
     ''{'' @ join '', '' (map (\<lambda>(k, v). dumps_str k @ '': '' @ example_dumps v) d) @ ''}''"

definition json_space :: "char \<Rightarrow> bool" where
  "json_space c = (c = CHR 0x20 \<or> c = CHR 0x09 \<or> c = CHR 0x0A \<or> c = CHR 0x0D)"

definition skip_ws :: "string \<Rightarrow> string" where
  "skip_ws s = dropWhile json_space s"

definition hex_value :: "char \<Rightarrow> nat option" where
  "hex_value c =
     (let n = (of_char c :: nat)
      in if 48 \<le> n \<and> n \<le> 57 then Some (n - 48)
         else if 97 \<le> n \<and> n \<le> 102 then Some (n - 87)
         else if 65 \<le> n \<and> n \<le> 70 then Some (n - 55)
         else None)"

definition unescape :: "char \<Rightarrow> char option" where
  "unescape e =
     (if e = CHR 0x22 \<or> e = CHR 0x5C \<or> e = CHR ''/'' then Some e
      else if e = CHR ''n'' then Some (CHR 0x0A)
      else if e = CHR ''r'' then Some (CHR 0x0D)
      else if e = CHR ''t'' then Some (CHR 0x09)
      else if e = CHR ''b'' then Some (CHR 0x08)
      else if e = CHR ''f'' then Some (CHR 0x0C)
      else None)"

text \<open>The rest of a string, after its opening quote.\<close>

fun loads_str :: "string \<Rightarrow> string \<Rightarrow> (string \<times> string) option" where
  "loads_str [] acc = None"
| "loads_str (c # cs) acc =
     (if c = CHR 0x22 then Some (acc, cs)
      else if c = CHR 0x5C then
        (case cs of
           [] \<Rightarrow> None
         | e # cs1 \<Rightarrow>
             if e = CHR ''u'' then
               (case cs1 of
                  h1 # h2 # h3 # h4 # cs2 \<Rightarrow>
                    (case (hex_value h1, hex_value h2, hex_value h3, hex_value h4) of
                       (Some a, Some b, Some x, Some y) \<Rightarrow>
                         if a = 0 \<and> b = 0 then loads_str cs2 (acc @ [char_of (16 * x + y)])
                         else None
                     | _ \<Rightarrow> None)
                | _ \<Rightarrow> None)
             else (case unescape e of
                     None \<Rightarrow> None
                   | Some u \<Rightarrow> loads_str cs1 (acc @ [u])))
      else if (of_char c :: nat) < 32 then None
      else loads_str cs (acc @ [c]))"

definition loads_int :: "string \<Rightarrow> (json \<times> string) option" where
  "loads_int s =
     (let neg = (s \<noteq> [] \<and> hd s = CHR ''-'');
          t = (if neg then tl s else s);
          ds = takeWhile isdigit_char t
      in if ds = [] \<or> (length ds > 1 \<and> hd ds = CHR ''0'') then None
         else (let v = foldl (\<lambda>acc c. 10 * acc + digit_value c) 0 ds
               in Some (JInt (if neg then - v else v), dropWhile isdigit_char t)))"

definition expect :: "string \<Rightarrow> string \<Rightarrow> string option" where
  "expect lit s = (if take (length lit) s = lit then Some (drop (length lit) s) else None)"

fun loads_value :: "nat \<Rightarrow> string \<Rightarrow> (json \<times> string) option"
  and loads_items :: "nat \<Rightarrow> string \<Rightarrow> json list \<Rightarrow> (json \<times> string) option"
  and loads_members :: "nat \<Rightarrow> string \<Rightarrow> json dict \<Rightarrow> (json \<times> string) option" where
  "loads_value 0 s = None"
| "loads_value (Suc n) s =
     (case skip_ws s of
        [] \<Rightarrow> None
      | c # cs \<Rightarrow>
          if c = CHR 0x22 then
            (case loads_str cs [] of None \<Rightarrow> None | Some (t, r) \<Rightarrow> Some (JStr t, r))
          else if c = CHR ''['' then
            (case expect '']'' (skip_ws cs) of
               Some r \<Rightarrow> Some (JList [], r)
             | None \<Rightarrow> loads_items n cs [])
          else if c = CHR ''{'' then
            (case expect ''}'' (skip_ws cs) of
               Some r \<Rightarrow> Some (JDict [], r)
             | None \<Rightarrow> loads_members n cs [])
          else if c = CHR ''n'' then
            (case expect ''ull'' cs of None \<Rightarrow> None | Some r \<Rightarrow> Some (JNull, r))
          else if c = CHR ''t'' then
            (case expect ''rue'' cs of None \<Rightarrow> None | Some r \<Rightarrow> Some (JBool True, r))
          else if c = CHR ''f'' then
            (case expect ''alse'' cs of None \<Rightarrow> None | Some r \<Rightarrow> Some (JBool False, r))
          else loads_int (c # cs))"
| "loads_items 0 s acc = None"
| "loads_items (Suc n) s acc =
     (case loads_value n s of
        None \<Rightarrow> None
      | Some (v, r) \<Rightarrow>
          (case skip_ws r of
             [] \<Rightarrow> None
           | c # cs \<Rightarrow>
               if c = CHR '','' then loads_items n cs (acc @ [v])
               else if c = CHR '']'' then Some (JList (acc @ [v]), cs)
               else None))"
| "loads_members 0 s acc = None"
| "loads_members (Suc n) s acc =
     (case skip_ws s of
        [] \<Rightarrow> None
      | q # s1 \<Rightarrow>
          if q \<noteq> CHR 0x22 then None
          else (case loads_str s1 [] of
                  None \<Rightarrow> None
                | Some (k, r) \<Rightarrow>
                    (case expect '':'' (skip_ws r) of
                       None \<Rightarrow> None
                     | Some r1 \<Rightarrow>
                         (case loads_value n r1 of
                            None \<Rightarrow> None
                          | Some (v, r2) \<Rightarrow>
                              (case skip_ws r2 of
                                 [] \<Rightarrow> None
                               | c # cs \<Rightarrow>
                                   if c = CHR '','' then loads_members n cs (dict_setitem acc k v)
                                   else if c = CHR ''}'' then Some (JDict (dict_setitem acc k v), cs)
                                   else None)))))"

definition example_loads :: "string \<Rightarrow> json option" where
  "example_loads s =
     (case loads_value (Suc (length s)) s of
        None \<Rightarrow> None
      | Some (v, r) \<Rightarrow> if skip_ws r = [] then Some v else None)"

text \<open>
  The server of the example: every page is the same short text, and the search API finds
  one place, with no address.
\<close>

definition example_reply :: json where
  "example_reply =
     JDict [(''searchResults'',
       JList [JDict [(''fields'',
         JDict [(''name'', JStr ''Keweenaw Co-op''),
                (''group_sic_code_ext'', JStr ''541105''),
                (''group_sic_code_name_ext'', JStr ''Grocers''),
                (''address'', JStr []),
                (''city'', JStr ''Hancock'')])]])]"

definition example_http_get :: "request list \<Rightarrow> request \<Rightarrow> string option" where
  "example_http_get sent req =
     (case req of
        Get url params \<Rightarrow>
          if url = mapquest_url then Some (example_dumps example_reply)
          else Some ''<html>a page</html>'')"

text \<open>Text without markup is parsed to a document with one string.\<close>

definition example_html_parser :: "string \<Rightarrow> node" where
  "example_html_parser text = Tag ''[document]'' [] [NavigableString text]"

fun example_format_value :: "json \<Rightarrow> string" where
  "example_format_value (JStr s) = s"
| "example_format_value (JInt i) = str_int i"
| "example_format_value (JBool b) = (if b then ''True'' else ''False'')"
| "example_format_value JNull = ''None''"
| "example_format_value v = example_dumps v"

definition example_env :: env where
  "example_env =
     \<lparr>json_dumps = example_dumps, json_loads = example_loads,
      html_parser = example_html_parser, http_get = example_http_get,
      api_key = ''K3Y'', format_value = example_format_value\<rparr>"

text \<open>The process with no cache file, the module loaded.\<close>

definition fresh_world :: world where
  "fresh_world =
     \<lparr>CACHE_DICT = JDict [], file_contents = None, file_readable = True,
      file_writable = True, requests_sent = [], seconds_slept = 0, printed = []\<rparr>"

definition isle_royale :: NationalSite where
  "isle_royale =
     \<lparr>category = ''National Park'', name = ''Isle Royale'', address = ''Houghton, MI'',
      zipcode = ''49931'', phone = ''(906) 482-0984''\<rparr>"

definition sleeping_bear :: NationalSite where
  "sleeping_bear =
     \<lparr>category = ''National Lakeshore'', name = ''Sleeping Bear Dunes'',
      address = ''Empire, MI'', zipcode = ''49630'', phone = ''(231) 326-4700''\<rparr>"

text \<open>
  Pages, as the trees the parser builds. The site page with every field is
  \<^verbatim>\<open>
  <a class="Hero-title"> Isle Royale </a>
  <span class="Hero-designation">National Park</span>
  <p class="adr"><span itemprop="addressLocality">Houghton</span>,
    <span itemprop="addressRegion">MI</span><span itemprop="postalCode">49931 </span></p>
  <span itemprop="telephone"> (906) 482-0984</span>
  \<close>
  without the white space between the elements; the bare page has no \<^verbatim>\<open>p\<close> element, the
  untitled page no title link, the page without a telephone no telephone span. The index
  page is
  \<^verbatim>\<open>
  <div class="SearchBar"><ul class="dropdown-menu SearchBar-keywordSearch">
    <li><a href="/state/mi/index.htm">Michigan</a></li> ... </ul></div>
  \<close>
\<close>

definition span_prop :: "string \<Rightarrow> string \<Rightarrow> node" where
  "span_prop p t = Tag ''span'' [(''itemprop'', Single p)] [NavigableString t]"

definition hero :: "node list" where
  "hero =
     [Tag ''a'' [(''class'', Multi [''Hero-title''])] [NavigableString '' Isle Royale ''],
      Tag ''span'' [(''class'', Multi [''Hero-designation''])] [NavigableString ''National Park'']]"

definition full_site_page :: node where
  "full_site_page =
     Tag ''[document]'' []
       (hero @
        [Tag ''p'' [(''class'', Multi [''adr''])]
           [span_prop ''addressLocality'' ''Houghton'', NavigableString '', '',
            span_prop ''addressRegion'' ''MI'', span_prop ''postalCode'' ''49931 ''],
         span_prop ''telephone'' '' (906) 482-0984''])"

definition bare_site_page :: node where
  "bare_site_page =
     Tag ''[document]'' [] (hero @ [span_prop ''telephone'' '' (906) 482-0984''])"

definition untitled_site_page :: node where
  "untitled_site_page =
     Tag ''[document]'' []
       [Tag ''span'' [(''class'', Multi [''Hero-designation''])] [NavigableString ''National Park''],
        span_prop ''postalCode'' ''49931'',
        span_prop ''telephone'' ''(906) 482-0984'']"

definition phoneless_site_page :: node where
  "phoneless_site_page = Tag ''[document]'' [] hero"

definition state_item :: "string \<Rightarrow> string \<Rightarrow> node" where
  "state_item label href =
     Tag ''li'' [] [Tag ''a'' [(''href'', Single href)] [NavigableString label]]"

definition index_page :: "node list \<Rightarrow> node" where
  "index_page items =
     Tag ''[document]'' []
       [Tag ''div'' [(''class'', Multi [''SearchBar''])]
          [Tag ''ul'' [(''class'', Multi [''dropdown-menu'', ''SearchBar-keywordSearch''])] items]]"

text \<open>The index page, a site, and the state after one fetch of each.\<close>

definition index_url :: string where
  "index_url = BASE_URL @ STATES_INDEX_PATH"

definition example_page :: json where
  "example_page = JStr ''<html>a page</html>''"

definition isle_royale_key :: string where
  "isle_royale_key =
     ''http://www.mapquestapi.com/search/v2/radius_ambiguities_ignore_key_K3Y_maxMatches_10_origin_49931_outFormat_json_radius_10_units_m''"

definition after_index_fetch :: world where
  "after_index_fetch =
     fresh_world\<lparr>file_contents := Some (example_dumps (JDict [(index_url, example_page)])),
                 requests_sent := [Get index_url []], seconds_slept := 1,
                 printed := [''Fetching'']\<rparr>"

definition after_nearby_fetch :: world where
  "after_nearby_fetch =
     fresh_world\<lparr>file_contents := Some (example_dumps (JDict [(isle_royale_key, example_reply)])),
                 requests_sent := [Get mapquest_url (nearby_params example_env isle_royale)],
                 printed := [''Fetching'']\<rparr>"

text \<open>An entry of \<^verbatim>\<open>searchResults\<close> with the given fields.\<close>

definition place_entry :: "json dict \<Rightarrow> json" where
  "place_entry f = JDict [(''fields'', JDict f)]"

text \<open>The fields of a place with no category and no address, and the same without the address key.\<close>

definition sparse_fields :: "json dict" where
  "sparse_fields =
     [(''name'', JStr ''Keweenaw Co-op''), (''group_sic_code_ext'', JStr []),
      (''address'', JNull), (''city'', JStr ''Hancock'')]"

definition addressless_fields :: "json dict" where
  "addressless_fields =
     [(''name'', JStr ''Keweenaw Co-op''), (''group_sic_code_ext'', JStr []),
      (''city'', JStr ''Hancock'')]"

text \<open>The state after the nearby places of Isle Royale and then the index page were fetched.\<close>

definition after_both_fetches :: world where
  "after_both_fetches =
     fresh_world\<lparr>CACHE_DICT := JDict [(index_url, example_page)],
                 file_contents := Some (example_dumps (JDict [(index_url, example_page)])),
                 requests_sent := [Get mapquest_url (nearby_params example_env isle_royale),
                                   Get index_url []],
                 seconds_slept := 1,
                 printed := [''Fetching'', ''Fetching'']\<rparr>"

section \<open>The cache key is independent of the insertion order\<close>

lemma param_strings_loop_keys:
  "set ks \<subseteq> fst ` set params \<Longrightarrow>
   param_strings_loop params ks acc =
     Inr (acc @ map (\<lambda>k. k @ ''_'' @ py_str (the (map_of params k))) ks)"
proof (induction ks arbitrary: acc)
  case Nil
  then show ?case by simp
next
  case (Cons k ks)
  from Cons.prems have "k \<in> fst ` set params" by simp
  then obtain v where v: "map_of params k = Some v"
    by (metis domD dom_map_of_conv_image_fst)
  from Cons.prems have "set ks \<subseteq> fst ` set params" by simp
  from Cons.IH [OF this] v show ?case by (simp add: dict_getitem_def)
qed

lemma lookup_own_items:
  "distinct (map fst params) \<Longrightarrow>
   map (\<lambda>k. k @ ''_'' @ py_str (the (map_of params k))) (map fst params) =
   map (\<lambda>(k, v). k @ ''_'' @ py_str v) params"
  by (induction params) (auto simp: rev_image_eqI)

text \<open>The key of a dict, from its items.\<close>

lemma construct_unique_key_items:
  assumes "distinct (dict_keys params)"
  shows "construct_unique_key baseurl params =
    Inr (baseurl @ ''_'' @ join ''_'' (sort (map (\<lambda>(k, v). k @ ''_'' @ py_str v) params)))"
proof -
  have "set (map fst params) \<subseteq> fst ` set params" by simp
  then have "param_strings_loop params (map fst params) [] =
      Inr ([] @ map (\<lambda>k. k @ ''_'' @ py_str (the (map_of params k))) (map fst params))"
    by (rule param_strings_loop_keys)
  also have "map (\<lambda>k. k @ ''_'' @ py_str (the (map_of params k))) (map fst params) =
      map (\<lambda>(k, v). k @ ''_'' @ py_str v) params"
    using assms unfolding dict_keys_def by (rule lookup_own_items)
  finally have "param_strings_loop params (dict_keys params) [] =
      Inr (map (\<lambda>(k, v). k @ ''_'' @ py_str v) params)"
    unfolding dict_keys_def by simp
  then show ?thesis
    unfolding construct_unique_key_def by (simp add: Let_def)
qed

lemma same_dict_same_items:
  assumes "distinct (map fst p)" "distinct (map fst q)" "map_of p = map_of q"
  shows "mset p = mset q"
proof -
  from assms have "set p = set q" using map_of_inject_set by blast
  moreover from assms have "distinct p" "distinct q" by (simp_all add: distinct_map)
  ultimately show ?thesis by (simp add: set_eq_iff_mset_eq_distinct)
qed

lemma sort_mset_cong:
  fixes xs ys :: "string list"
  assumes "mset xs = mset ys"
  shows "sort xs = sort ys"
  by (rule properties_for_sort) (simp_all add: assms)

text \<open>
  Claim C1. Two dicts with the same keys and the same value for each key, whatever the
  order in which the keys were inserted, give the same cache key, and
  \<^verbatim>\<open>construct_unique_key\<close> returns (it raises no \<^verbatim>\<open>KeyError\<close>). A dict is a list of
  items with distinct keys; \<open>map_of\<close> is the mapping it stands for.
\<close>

theorem construct_unique_key_order_independent:
  assumes "distinct (dict_keys p)" and "distinct (dict_keys q)" and "map_of p = map_of q"
  shows "construct_unique_key b p = construct_unique_key b q \<and>
         (\<exists>s. construct_unique_key b p = Inr s)"
proof -
  let ?f = "\<lambda>(k, v). k @ ''_'' @ py_str v"
  from assms have "mset p = mset q"
    unfolding dict_keys_def by (rule same_dict_same_items)
  then have "mset (map ?f p) = mset (map ?f q)"
    by (simp only: mset_map)
  then have "sort (map ?f p) = sort (map ?f q)"
    by (rule sort_mset_cong)
  then have "construct_unique_key b p = construct_unique_key b q"
    by (simp only: construct_unique_key_items [OF assms(1)] construct_unique_key_items [OF assms(2)])
  moreover have "\<exists>s. construct_unique_key b p = Inr s"
    by (simp only: construct_unique_key_items [OF assms(1)]) blast
  ultimately show ?thesis by (rule conjI)
qed

text \<open>The example of the specification: \<^verbatim>\<open>{"x":"1","y":"2"}\<close> and \<^verbatim>\<open>{"y":"2","x":"1"}\<close>.\<close>

theorem construct_unique_key_order_independent_witness:
  "distinct (dict_keys [(''x'', PStr ''1''), (''y'', PStr ''2'')]) \<and>
   distinct (dict_keys [(''y'', PStr ''2''), (''x'', PStr ''1'')]) \<and>
   map_of [(''x'', PStr ''1''), (''y'', PStr ''2'')] = map_of [(''y'', PStr ''2''), (''x'', PStr ''1'')] \<and>
   construct_unique_key ''B'' [(''x'', PStr ''1''), (''y'', PStr ''2'')] =
   construct_unique_key ''B'' [(''y'', PStr ''2''), (''x'', PStr ''1'')]"
proof -
  have d1: "distinct (dict_keys [(''x'', PStr ''1''), (''y'', PStr ''2'')])"
    by (simp add: dict_keys_def)
  have d2: "distinct (dict_keys [(''y'', PStr ''2''), (''x'', PStr ''1'')])"
    by (simp add: dict_keys_def)
  have m: "map_of [(''x'', PStr ''1''), (''y'', PStr ''2'')] =
           map_of [(''y'', PStr ''2''), (''x'', PStr ''1'')]"
    by (auto simp: fun_eq_iff)
  from construct_unique_key_order_independent [OF d1 d2 m, of "''B''"]
  have "construct_unique_key ''B'' [(''x'', PStr ''1''), (''y'', PStr ''2'')] =
   construct_unique_key ''B'' [(''y'', PStr ''2''), (''x'', PStr ''1'')]" by (rule conjunct1)
  with d1 d2 m show ?thesis by (intro conjI)
qed

section \<open>The cache file\<close>

lemma dict_getitem_in_keys: "dict_getitem d k = Inr v \<Longrightarrow> k \<in> set (dict_keys d)"
  by (auto simp: dict_getitem_def dict_keys_def split: option.splits dest: map_of_SomeD intro: rev_image_eqI)

lemma dict_getitem_setitem: "dict_getitem (dict_setitem d k v) k = Inr v"
  by (simp add: dict_getitem_def dict_setitem_def update_conv')

lemma open_cache_after_save:
  assumes "save_cache E cache w = Inr w'" and "file_readable w"
    and "json_loads E (json_dumps E cache) = Some cache"
  shows "open_cache E w' = cache"
  using assms
  by (auto simp: save_cache_def open_cache_def read_cache_file_def split: if_splits)

text \<open>
  Claim C3. \<^verbatim>\<open>cache[k] = v\<close> followed by \<^verbatim>\<open>save_cache(cache)\<close>, when the write goes
  through, leaves the whole dict, serialised, as the text of the file; \<^verbatim>\<open>open_cache()\<close>
  then returns a dict that maps \<open>k\<close> to \<open>v\<close>. The file must be readable, and
  \<^verbatim>\<open>json.loads\<close> must read back what \<^verbatim>\<open>json.dumps\<close> wrote for that dict.
\<close>

theorem cache_round_trip:
  assumes "save_cache E (JDict (dict_setitem d k v)) w = Inr w'"
    and "file_readable w"
    and "json_loads E (json_dumps E (JDict (dict_setitem d k v))) = Some (JDict (dict_setitem d k v))"
  shows "open_cache E w' = JDict (dict_setitem d k v) \<and>
         getitem_str (open_cache E w') k = Inr v \<and>
         file_contents w' = Some (json_dumps E (JDict (dict_setitem d k v)))"
proof -
  have 1: "open_cache E w' = JDict (dict_setitem d k v)"
    using assms by (rule open_cache_after_save)
  have 2: "getitem_str (open_cache E w') k = Inr v"
    by (simp add: 1 dict_getitem_setitem)
  have 3: "file_contents w' = Some (json_dumps E (JDict (dict_setitem d k v)))"
    using assms(1) by (auto simp: save_cache_def split: if_splits)
  from 1 2 3 show ?thesis by simp
qed

theorem cache_round_trip_witness:
  "save_cache example_env
     (JDict (dict_setitem [(''a'', JInt 1)] ''https://www.nps.gov/index.htm'' (JStr ''<html>a page</html>'')))
     fresh_world =
     Inr (fresh_world\<lparr>file_contents := Some (example_dumps
       (JDict [(''a'', JInt 1), (''https://www.nps.gov/index.htm'', JStr ''<html>a page</html>'')]))\<rparr>) \<and>
   file_readable fresh_world \<and>
   json_loads example_env (json_dumps example_env
     (JDict (dict_setitem [(''a'', JInt 1)] ''https://www.nps.gov/index.htm'' (JStr ''<html>a page</html>'')))) =
     Some (JDict (dict_setitem [(''a'', JInt 1)] ''https://www.nps.gov/index.htm'' (JStr ''<html>a page</html>''))) \<and>
   getitem_str
     (open_cache example_env (fresh_world\<lparr>file_contents := Some (example_dumps
       (JDict [(''a'', JInt 1), (''https://www.nps.gov/index.htm'', JStr ''<html>a page</html>'')]))\<rparr>))
     ''https://www.nps.gov/index.htm'' = Inr (JStr ''<html>a page</html>'')"
proof -
  have h1: "save_cache example_env
     (JDict (dict_setitem [(''a'', JInt 1)] ''https://www.nps.gov/index.htm'' (JStr ''<html>a page</html>'')))
     fresh_world =
     Inr (fresh_world\<lparr>file_contents := Some (example_dumps
       (JDict [(''a'', JInt 1), (''https://www.nps.gov/index.htm'', JStr ''<html>a page</html>'')]))\<rparr>)"
    by code_simp
  have h2: "file_readable fresh_world"
    by code_simp
  have h3: "json_loads example_env (json_dumps example_env
     (JDict (dict_setitem [(''a'', JInt 1)] ''https://www.nps.gov/index.htm'' (JStr ''<html>a page</html>'')))) =
     Some (JDict (dict_setitem [(''a'', JInt 1)] ''https://www.nps.gov/index.htm'' (JStr ''<html>a page</html>'')))"
    by code_simp
  from cache_round_trip [OF h1 h2 h3] have
    "getitem_str
     (open_cache example_env (fresh_world\<lparr>file_contents := Some (example_dumps
       (JDict [(''a'', JInt 1), (''https://www.nps.gov/index.htm'', JStr ''<html>a page</html>'')]))\<rparr>))
     ''https://www.nps.gov/index.htm'' = Inr (JStr ''<html>a page</html>'')"
    by (elim conjE)
  with h1 h2 h3 show ?thesis by (intro conjI)
qed

text \<open>
  Claim C4. \<^verbatim>\<open>open_cache\<close> returns the empty dict when the file is absent, when it
  cannot be read and when its text is no JSON: every exception of the \<^verbatim>\<open>try\<close> body ends
  in \<^verbatim>\<open>cache = {}\<close>, and the function has no other way out than \<^verbatim>\<open>return cache\<close>. It
  returns the parsed value when the file is read and its whole text parses, and a result
  other than the empty dict is always the parse of the file's text.
\<close>

theorem open_cache_silent_recovery:
  "(\<forall>e. read_cache_file E w = Inl e \<longrightarrow> open_cache E w = JDict []) \<and>
   (file_contents w = None \<longrightarrow> open_cache E w = JDict []) \<and>
   (\<not> file_readable w \<longrightarrow> open_cache E w = JDict []) \<and>
   (\<forall>s. file_contents w = Some s \<longrightarrow> json_loads E s = None \<longrightarrow> open_cache E w = JDict []) \<and>
   (\<forall>s c. file_readable w \<longrightarrow> file_contents w = Some s \<longrightarrow> json_loads E s = Some c \<longrightarrow>
      open_cache E w = c) \<and>
   (open_cache E w \<noteq> JDict [] \<longrightarrow>
      (\<exists>s. file_readable w \<and> file_contents w = Some s \<and> json_loads E s = Some (open_cache E w)))"
  by (auto simp: open_cache_def read_cache_file_def split: option.splits)

theorem open_cache_silent_recovery_witness:
  "file_contents fresh_world = None \<and>
   open_cache example_env fresh_world = JDict [] \<and>
   \<not> file_readable (fresh_world\<lparr>file_contents := Some ''{}'', file_readable := False\<rparr>) \<and>
   open_cache example_env (fresh_world\<lparr>file_contents := Some ''{}'', file_readable := False\<rparr>) = JDict [] \<and>
   json_loads example_env ''{not json'' = None \<and>
   open_cache example_env (fresh_world\<lparr>file_contents := Some ''{not json''\<rparr>) = JDict [] \<and>
   json_loads example_env ''{ }  junk'' = None \<and>
   open_cache example_env (fresh_world\<lparr>file_contents := Some ''{ }  junk''\<rparr>) = JDict [] \<and>
   json_loads example_env ''[1, 2]'' = Some (JList [JInt 1, JInt 2]) \<and>
   open_cache example_env (fresh_world\<lparr>file_contents := Some ''[1, 2]''\<rparr>) = JList [JInt 1, JInt 2]"
proof -
  have a1: "file_contents fresh_world = None" by code_simp
  have a2: "\<not> file_readable (fresh_world\<lparr>file_contents := Some ''{}'', file_readable := False\<rparr>)"
    by simp
  have a3: "json_loads example_env ''{not json'' = None" by code_simp
  have a4: "json_loads example_env ''{ }  junk'' = None" by code_simp
  have a5: "json_loads example_env ''[1, 2]'' = Some (JList [JInt 1, JInt 2])" by code_simp
  have r: "file_readable fresh_world" by code_simp
  note T = open_cache_silent_recovery
  have c1: "open_cache example_env fresh_world = JDict []"
    by (rule T [THEN conjunct2, THEN conjunct1, rule_format]) (rule a1)
  have c2: "open_cache example_env (fresh_world\<lparr>file_contents := Some ''{}'', file_readable := False\<rparr>) = JDict []"
    by (rule T [THEN conjunct2, THEN conjunct2, THEN conjunct1, rule_format]) (rule a2)
  have c3: "open_cache example_env (fresh_world\<lparr>file_contents := Some ''{not json''\<rparr>) = JDict []"
    by (rule T [THEN conjunct2, THEN conjunct2, THEN conjunct2, THEN conjunct1, rule_format,
          where s = "''{not json''"]) (simp, rule a3)
  have c4: "open_cache example_env (fresh_world\<lparr>file_contents := Some ''{ }  junk''\<rparr>) = JDict []"
    by (rule T [THEN conjunct2, THEN conjunct2, THEN conjunct2, THEN conjunct1, rule_format,
          where s = "''{ }  junk''"]) (simp, rule a4)
  have c5: "open_cache example_env (fresh_world\<lparr>file_contents := Some ''[1, 2]''\<rparr>) = JList [JInt 1, JInt 2]"
    by (rule T [THEN conjunct2, THEN conjunct2, THEN conjunct2, THEN conjunct2, THEN conjunct1,
          rule_format, where s = "''[1, 2]''"]) (simp add: r, simp, rule a5)
  from a1 a2 a3 a4 a5 c1 c2 c3 c4 c5 show ?thesis by (intro conjI)
qed

section \<open>Fetching through the cache\<close>

lemma url_hit:
  assumes "dict_getitem d url = Inr v"
  shows "make_url_request_using_cache E url (JDict d) w = (Inr v, JDict d, print ''Using cache'' w)"
  using assms dict_getitem_in_keys [OF assms]
  by (simp add: make_url_request_using_cache_def)

lemma url_miss:
  assumes "url \<notin> set (dict_keys d)"
    and "make_url_request_using_cache E url (JDict d) w = (Inr v, cache1, w1)"
  shows "cache1 = JDict (dict_setitem d url v) \<and>
         requests_sent w1 = requests_sent w @ [Get url []] \<and>
         seconds_slept w1 = seconds_slept w + 1"
  using assms
  by (auto simp: make_url_request_using_cache_def requests_get_def print_def sleep_def
      save_cache_def Let_def dict_getitem_setitem split: option.splits if_splits)

lemma url_twice:
  assumes "url \<notin> set (dict_keys d)"
    and "make_url_request_using_cache E url (JDict d) w = (Inr v, cache1, w1)"
  shows "make_url_request_using_cache E url cache1 w1 = (Inr v, cache1, print ''Using cache'' w1) \<and>
         requests_sent (print ''Using cache'' w1) = requests_sent w @ [Get url []]"
proof -
  from url_miss [OF assms] have c: "cache1 = JDict (dict_setitem d url v)"
    and r: "requests_sent w1 = requests_sent w @ [Get url []]" by simp_all
  have "make_url_request_using_cache E url (JDict (dict_setitem d url v)) w1 =
      (Inr v, JDict (dict_setitem d url v), print ''Using cache'' w1)"
    by (rule url_hit) (rule dict_getitem_setitem)
  with c r show ?thesis by (simp add: print_def)
qed

text \<open>After a miss, the file holds the cache with the new entry.\<close>

lemma miss_then_open_cache:
  assumes "url \<notin> set (dict_keys d)"
    and "make_url_request_using_cache E url (JDict d) w = (Inr v, cache1, w1)"
    and "file_readable w"
    and "json_loads E (json_dumps E cache1) = Some cache1"
  shows "open_cache E w1 = cache1 \<and> getitem_str (open_cache E w1) url = Inr v"
proof -
  from url_miss [OF assms(1,2)] have c: "cache1 = JDict (dict_setitem d url v)" by simp
  from assms(1,2) have "file_contents w1 = Some (json_dumps E cache1) \<and> file_readable w1 = file_readable w"
    by (auto simp: make_url_request_using_cache_def requests_get_def print_def sleep_def
        save_cache_def Let_def split: option.splits if_splits)
  with assms(3,4) have "open_cache E w1 = cache1"
    by (simp add: open_cache_def read_cache_file_def)
  then show ?thesis by (simp add: c dict_getitem_setitem)
qed

text \<open>The parameters of \<^verbatim>\<open>get_nearby_places\<close> always have a key.\<close>

lemma nearby_key_defined:
  "\<exists>uniq_key. construct_unique_key mapquest_url (nearby_params E site_object) = Inr uniq_key"
proof -
  have "distinct (dict_keys (nearby_params E site_object))"
    by (simp add: nearby_params_def dict_keys_def)
  then show ?thesis
    by (simp only: construct_unique_key_items) blast
qed

lemma nearby_hit:
  assumes "open_cache E w = JDict d"
    and "construct_unique_key mapquest_url (nearby_params E site_object) = Inr uniq_key"
    and "dict_getitem d uniq_key = Inr v"
  shows "get_nearby_places E site_object w = (Inr v, print ''Using Cache'' w)"
  using assms dict_getitem_in_keys [OF assms(3)]
  by (simp add: get_nearby_places_def)

lemma nearby_miss:
  assumes "open_cache E w = JDict d"
    and "construct_unique_key mapquest_url (nearby_params E site_object) = Inr uniq_key"
    and "uniq_key \<notin> set (dict_keys d)"
    and "get_nearby_places E site_object w = (Inr v, w1)"
  shows "save_cache E (JDict (dict_setitem d uniq_key v))
           (w\<lparr>printed := printed w @ [''Fetching''],
              requests_sent := requests_sent w @ [Get mapquest_url (nearby_params E site_object)]\<rparr>) = Inr w1"
  using assms
  by (auto simp: get_nearby_places_def requests_get_def print_def Let_def dict_getitem_setitem
      split: option.splits if_splits sum.splits)

lemma save_cache_frame:
  assumes "save_cache E c w = Inr w1"
  shows "requests_sent w1 = requests_sent w \<and> file_readable w1 = file_readable w \<and>
         seconds_slept w1 = seconds_slept w \<and> CACHE_DICT w1 = CACHE_DICT w"
  using assms by (auto simp: save_cache_def split: if_splits)

lemma nearby_twice:
  assumes "open_cache E w = JDict d"
    and "construct_unique_key mapquest_url (nearby_params E site_object) = Inr uniq_key"
    and "uniq_key \<notin> set (dict_keys d)"
    and "get_nearby_places E site_object w = (Inr v, w1)"
    and "file_readable w"
    and "json_loads E (json_dumps E (JDict (dict_setitem d uniq_key v))) =
           Some (JDict (dict_setitem d uniq_key v))"
  shows "get_nearby_places E site_object w1 = (Inr v, print ''Using Cache'' w1) \<and>
         requests_sent (print ''Using Cache'' w1) =
           requests_sent w @ [Get mapquest_url (nearby_params E site_object)] \<and>
         seconds_slept (print ''Using Cache'' w1) = seconds_slept w"
proof -
  let ?w0 = "w\<lparr>printed := printed w @ [''Fetching''],
              requests_sent := requests_sent w @ [Get mapquest_url (nearby_params E site_object)]\<rparr>"
  from nearby_miss [OF assms(1-4)]
  have s: "save_cache E (JDict (dict_setitem d uniq_key v)) ?w0 = Inr w1" .
  from assms(5) have r: "file_readable ?w0" by simp
  have o: "open_cache E w1 = JDict (dict_setitem d uniq_key v)"
    by (rule open_cache_after_save [OF s r assms(6)])
  have "get_nearby_places E site_object w1 = (Inr v, print ''Using Cache'' w1)"
    using o assms(2) dict_getitem_setitem by (rule nearby_hit)
  moreover from save_cache_frame [OF s]
  have "requests_sent w1 = requests_sent w @ [Get mapquest_url (nearby_params E site_object)]"
    and "seconds_slept w1 = seconds_slept w" by simp_all
  ultimately show ?thesis by (simp add: print_def)
qed

text \<open>
  Claim C2. A key that is in the cache is answered from the cache: the fetch returns the
  cached value, and the state changes by the printed line only, so nothing is slept,
  requested or written. For \<^verbatim>\<open>make_url_request_using_cache\<close> the cache is the dict it
  is given; for \<^verbatim>\<open>get_nearby_places\<close> it is the dict \<^verbatim>\<open>open_cache()\<close> loads at the
  start of the call. Hence a fetch that missed and returned \<open>v\<close>, repeated at once,
  returns \<open>v\<close> again, and the two calls together sent one request, the first call's.
  For \<^verbatim>\<open>get_nearby_places\<close> the second call reads the file the first one wrote: the
  file must be readable, and \<^verbatim>\<open>json.loads\<close> must read back what \<^verbatim>\<open>json.dumps\<close> wrote.
\<close>

theorem cache_hit_idempotence:
  "(dict_getitem d url = Inr v \<longrightarrow>
      make_url_request_using_cache E url (JDict d) w = (Inr v, JDict d, print ''Using cache'' w)) \<and>
   (url \<notin> set (dict_keys d) \<longrightarrow>
    make_url_request_using_cache E url (JDict d) w = (Inr v, cache1, w1) \<longrightarrow>
      make_url_request_using_cache E url cache1 w1 = (Inr v, cache1, print ''Using cache'' w1) \<and>
      requests_sent (print ''Using cache'' w1) = requests_sent w @ [Get url []]) \<and>
   (open_cache E w = JDict d \<longrightarrow>
    construct_unique_key mapquest_url (nearby_params E site_object) = Inr uniq_key \<longrightarrow>
    dict_getitem d uniq_key = Inr v \<longrightarrow>
      get_nearby_places E site_object w = (Inr v, print ''Using Cache'' w)) \<and>
   (open_cache E w = JDict d \<longrightarrow>
    construct_unique_key mapquest_url (nearby_params E site_object) = Inr uniq_key \<longrightarrow>
    uniq_key \<notin> set (dict_keys d) \<longrightarrow>
    get_nearby_places E site_object w = (Inr v, w1) \<longrightarrow>
    file_readable w \<longrightarrow>
    json_loads E (json_dumps E (JDict (dict_setitem d uniq_key v))) =
      Some (JDict (dict_setitem d uniq_key v)) \<longrightarrow>
      get_nearby_places E site_object w1 = (Inr v, print ''Using Cache'' w1) \<and>
      requests_sent (print ''Using Cache'' w1) =
        requests_sent w @ [Get mapquest_url (nearby_params E site_object)] \<and>
      seconds_slept (print ''Using Cache'' w1) = seconds_slept w)"
  by (intro conjI impI url_hit url_twice nearby_hit nearby_twice [THEN conjunct1]
      nearby_twice [THEN conjunct2, THEN conjunct1] nearby_twice [THEN conjunct2, THEN conjunct2])

theorem cache_hit_idempotence_witness:
  "dict_getitem [(index_url, example_page)] index_url = Inr example_page \<and>
   make_url_request_using_cache example_env index_url (JDict [(index_url, example_page)]) fresh_world =
     (Inr example_page, JDict [(index_url, example_page)], print ''Using cache'' fresh_world) \<and>
   index_url \<notin> set (dict_keys ([] :: json dict)) \<and>
   make_url_request_using_cache example_env index_url (JDict []) fresh_world =
     (Inr example_page, JDict [(index_url, example_page)], after_index_fetch) \<and>
   make_url_request_using_cache example_env index_url (JDict [(index_url, example_page)]) after_index_fetch =
     (Inr example_page, JDict [(index_url, example_page)], print ''Using cache'' after_index_fetch) \<and>
   requests_sent (print ''Using cache'' after_index_fetch) = requests_sent fresh_world @ [Get index_url []] \<and>
   open_cache example_env fresh_world = JDict [] \<and>
   construct_unique_key mapquest_url (nearby_params example_env isle_royale) = Inr isle_royale_key \<and>
   get_nearby_places example_env isle_royale fresh_world = (Inr example_reply, after_nearby_fetch) \<and>
   file_readable fresh_world \<and>
   json_loads example_env (json_dumps example_env (JDict (dict_setitem [] isle_royale_key example_reply))) =
     Some (JDict (dict_setitem [] isle_royale_key example_reply)) \<and>
   get_nearby_places example_env isle_royale after_nearby_fetch =
     (Inr example_reply, print ''Using Cache'' after_nearby_fetch) \<and>
   requests_sent (print ''Using Cache'' after_nearby_fetch) =
     requests_sent fresh_world @ [Get mapquest_url (nearby_params example_env isle_royale)] \<and>
   open_cache example_env after_nearby_fetch = JDict [(isle_royale_key, example_reply)] \<and>
   dict_getitem [(isle_royale_key, example_reply)] isle_royale_key = Inr example_reply"
proof -
  note T = cache_hit_idempotence
  have a1: "dict_getitem [(index_url, example_page)] index_url = Inr example_page"
    by (simp add: dict_getitem_def)
  have c1: "make_url_request_using_cache example_env index_url (JDict [(index_url, example_page)]) fresh_world =
     (Inr example_page, JDict [(index_url, example_page)], print ''Using cache'' fresh_world)"
    by (rule T [THEN conjunct1, rule_format]) (rule a1)
  have a2: "index_url \<notin> set (dict_keys ([] :: json dict))"
    by (simp add: dict_keys_def)
  have a3: "make_url_request_using_cache example_env index_url (JDict []) fresh_world =
     (Inr example_page, JDict [(index_url, example_page)], after_index_fetch)"
    by code_simp
  note c2 = T [THEN conjunct2, THEN conjunct1, rule_format, OF a2 a3]
  have a4: "open_cache example_env fresh_world = JDict []"
    by code_simp
  have a5: "construct_unique_key mapquest_url (nearby_params example_env isle_royale) = Inr isle_royale_key"
    by code_simp
  have a6: "isle_royale_key \<notin> set (dict_keys ([] :: json dict))"
    by (simp add: dict_keys_def)
  have a7: "get_nearby_places example_env isle_royale fresh_world = (Inr example_reply, after_nearby_fetch)"
    by code_simp
  have a8: "file_readable fresh_world"
    by code_simp
  have a9: "json_loads example_env (json_dumps example_env (JDict (dict_setitem [] isle_royale_key example_reply))) =
     Some (JDict (dict_setitem [] isle_royale_key example_reply))"
    by code_simp
  note c4 = T [THEN conjunct2, THEN conjunct2, THEN conjunct2, rule_format, OF a4 a5 a6 a7 a8 a9]
  have b1: "open_cache example_env after_nearby_fetch = JDict [(isle_royale_key, example_reply)]"
    by code_simp
  have b2: "dict_getitem [(isle_royale_key, example_reply)] isle_royale_key = Inr example_reply"
    by (simp add: dict_getitem_def)
  note c3 = T [THEN conjunct2, THEN conjunct2, THEN conjunct1, rule_format, OF b1 a5 b2]
  from a1 c1 a2 a3 c2 a4 a5 a7 a8 a9 c4 c3 b1 b2 show ?thesis
    by (intro conjI) (erule conjE | assumption)+
qed

section \<open>The fields of a site\<close>

lemma text_of_found: "text_of (Some n) = Inr (get_text n)"
  by (simp add: text_of_def)

lemma text_of_missing: "text_of None = Inl AttributeError"
  by (simp add: text_of_def)

lemma site_address_of_missing:
  "soup_find (Some ''span'') [(''itemprop'', ''addressLocality'')] soup = None \<or>
   soup_find (Some ''span'') [(''itemprop'', ''addressRegion'')] soup = None \<Longrightarrow>
   site_address_of soup = ''No address''"
  by (auto simp: site_address_of_def text_of_def split: option.splits)

lemma site_zip_of_missing:
  "soup_find (Some ''span'') [(''itemprop'', ''postalCode'')] soup = None \<Longrightarrow>
   site_zip_of soup = ''No zipcode''"
  by (simp add: site_zip_of_def text_of_def)

lemma site_of_soup_required:
  assumes "soup_find None [(''class'', ''Hero-title'')] soup = Some title_tag"
    and "soup_find None [(''class'', ''Hero-designation'')] soup = Some designation_tag"
    and "soup_find (Some ''span'') [(''itemprop'', ''telephone'')] soup = Some phone_tag"
  shows "site_of_soup soup =
    Inr \<lparr>category = strip (get_text designation_tag), name = strip (get_text title_tag),
         address = site_address_of soup, zipcode = site_zip_of soup,
         phone = strip (get_text phone_tag)\<rparr>"
  using assms by (simp add: site_of_soup_def text_of_def)

text \<open>
  Claim C5, as the code has it. On a page with the title, the designation and the
  telephone, \<^verbatim>\<open>get_site_instance\<close> builds a site whatever the address and postal code
  markup: without the locality or the region span the address is \<^verbatim>\<open>'No address'\<close>,
  without the postal code span the zip code is \<^verbatim>\<open>'No zipcode'\<close>, both with a capital N.
\<close>

theorem optional_fields_default:
  assumes "soup_find None [(''class'', ''Hero-title'')] soup = Some title_tag"
    and "soup_find None [(''class'', ''Hero-designation'')] soup = Some designation_tag"
    and "soup_find (Some ''span'') [(''itemprop'', ''telephone'')] soup = Some phone_tag"
  shows "\<exists>site. site_of_soup soup = Inr site \<and>
     (soup_find (Some ''span'') [(''itemprop'', ''addressLocality'')] soup = None \<or>
      soup_find (Some ''span'') [(''itemprop'', ''addressRegion'')] soup = None \<longrightarrow>
        address site = ''No address'') \<and>
     (soup_find (Some ''span'') [(''itemprop'', ''postalCode'')] soup = None \<longrightarrow>
        zipcode site = ''No zipcode'')"
  by (simp add: site_of_soup_required [OF assms] site_address_of_missing site_zip_of_missing)

theorem optional_fields_default_witness:
  "soup_find None [(''class'', ''Hero-title'')] bare_site_page =
     Some (Tag ''a'' [(''class'', Multi [''Hero-title''])] [NavigableString '' Isle Royale '']) \<and>
   soup_find None [(''class'', ''Hero-designation'')] bare_site_page =
     Some (Tag ''span'' [(''class'', Multi [''Hero-designation''])] [NavigableString ''National Park'']) \<and>
   soup_find (Some ''span'') [(''itemprop'', ''telephone'')] bare_site_page =
     Some (span_prop ''telephone'' '' (906) 482-0984'') \<and>
   soup_find (Some ''span'') [(''itemprop'', ''addressLocality'')] bare_site_page = None \<and>
   soup_find (Some ''span'') [(''itemprop'', ''postalCode'')] bare_site_page = None \<and>
   (\<exists>site. site_of_soup bare_site_page = Inr site \<and> address site = ''No address'' \<and>
      zipcode site = ''No zipcode'')"
proof -
  have a1: "soup_find None [(''class'', ''Hero-title'')] bare_site_page =
     Some (Tag ''a'' [(''class'', Multi [''Hero-title''])] [NavigableString '' Isle Royale ''])"
    by code_simp
  have a2: "soup_find None [(''class'', ''Hero-designation'')] bare_site_page =
     Some (Tag ''span'' [(''class'', Multi [''Hero-designation''])] [NavigableString ''National Park''])"
    by code_simp
  have a3: "soup_find (Some ''span'') [(''itemprop'', ''telephone'')] bare_site_page =
     Some (span_prop ''telephone'' '' (906) 482-0984'')"
    by code_simp
  have a4: "soup_find (Some ''span'') [(''itemprop'', ''addressLocality'')] bare_site_page = None"
    by code_simp
  have a5: "soup_find (Some ''span'') [(''itemprop'', ''postalCode'')] bare_site_page = None"
    by code_simp
  from optional_fields_default [OF a1 a2 a3] obtain site where
    s: "site_of_soup bare_site_page = Inr site"
    and ad: "soup_find (Some ''span'') [(''itemprop'', ''addressLocality'')] bare_site_page = None \<or>
      soup_find (Some ''span'') [(''itemprop'', ''addressRegion'')] bare_site_page = None \<longrightarrow>
        address site = ''No address''"
    and z: "soup_find (Some ''span'') [(''itemprop'', ''postalCode'')] bare_site_page = None \<longrightarrow>
        zipcode site = ''No zipcode''"
    by (elim exE conjE)
  have ad': "address site = ''No address''"
    by (rule mp [OF ad]) (rule disjI1 [OF a4])
  have z': "zipcode site = ''No zipcode''"
    by (rule mp [OF z]) (rule a5)
  have "\<exists>site. site_of_soup bare_site_page = Inr site \<and> address site = ''No address'' \<and>
      zipcode site = ''No zipcode''"
    by (rule exI [of _ site]) (intro conjI s ad' z')
  with a1 a2 a3 a4 a5 show ?thesis by (intro conjI)
qed

text \<open>
  The sentinels are not the lower-case strings of the claim: a page with neither address
  nor postal code gives \<^verbatim>\<open>'No address'\<close> and \<^verbatim>\<open>'No zipcode'\<close>.
\<close>

theorem lower_case_sentinel_counterexample:
  "soup_find (Some ''span'') [(''itemprop'', ''addressLocality'')] bare_site_page = None \<and>
   soup_find (Some ''span'') [(''itemprop'', ''addressRegion'')] bare_site_page = None \<and>
   soup_find (Some ''span'') [(''itemprop'', ''postalCode'')] bare_site_page = None \<and>
   site_of_soup bare_site_page =
     Inr \<lparr>category = ''National Park'', name = ''Isle Royale'', address = ''No address'',
          zipcode = ''No zipcode'', phone = ''(906) 482-0984''\<rparr> \<and>
   ''No address'' \<noteq> ''no address'' \<and> ''No zipcode'' \<noteq> ''no zipcode''"
  by code_simp

text \<open>
  Claim C6. Without the title element, \<^verbatim>\<open>find\<close> returns \<^verbatim>\<open>None\<close> and \<^verbatim>\<open>.text\<close> raises
  \<^verbatim>\<open>AttributeError\<close>, outside any \<^verbatim>\<open>try\<close>: no site is built. The same holds without the
  telephone span. \<^verbatim>\<open>get_site_instance\<close> hands the exception to its caller.
\<close>

theorem required_fields_fail:
  "(soup_find None [(''class'', ''Hero-title'')] soup = None \<longrightarrow>
      site_of_soup soup = Inl AttributeError) \<and>
   (soup_find (Some ''span'') [(''itemprop'', ''telephone'')] soup = None \<longrightarrow>
      site_of_soup soup = Inl AttributeError) \<and>
   (fetch_with_CACHE_DICT E site_url w = (Inr (JStr site_text), w') \<longrightarrow>
    site_of_soup (html_parser E site_text) = Inl AttributeError \<longrightarrow>
      get_site_instance E site_url w = (Inl AttributeError, w'))"
  by (auto simp: site_of_soup_def text_of_def get_site_instance_def BeautifulSoup_def Let_def
      split: option.splits)

theorem required_fields_fail_witness:
  "soup_find None [(''class'', ''Hero-title'')] untitled_site_page = None \<and>
   site_of_soup untitled_site_page = Inl AttributeError \<and>
   soup_find (Some ''span'') [(''itemprop'', ''telephone'')] phoneless_site_page = None \<and>
   site_of_soup phoneless_site_page = Inl AttributeError \<and>
   fetch_with_CACHE_DICT example_env ''https://www.nps.gov/isro/index.htm'' fresh_world =
     (Inr (JStr ''<html>a page</html>''),
      fresh_world\<lparr>CACHE_DICT := JDict [(''https://www.nps.gov/isro/index.htm'', JStr ''<html>a page</html>'')],
        file_contents := Some (example_dumps
          (JDict [(''https://www.nps.gov/isro/index.htm'', JStr ''<html>a page</html>'')])),
        requests_sent := [Get ''https://www.nps.gov/isro/index.htm'' []], seconds_slept := 1,
        printed := [''Fetching'']\<rparr>) \<and>
   site_of_soup (html_parser example_env ''<html>a page</html>'') = Inl AttributeError \<and>
   get_site_instance example_env ''https://www.nps.gov/isro/index.htm'' fresh_world =
     (Inl AttributeError,
      fresh_world\<lparr>CACHE_DICT := JDict [(''https://www.nps.gov/isro/index.htm'', JStr ''<html>a page</html>'')],
        file_contents := Some (example_dumps
          (JDict [(''https://www.nps.gov/isro/index.htm'', JStr ''<html>a page</html>'')])),
        requests_sent := [Get ''https://www.nps.gov/isro/index.htm'' []], seconds_slept := 1,
        printed := [''Fetching'']\<rparr>)"
proof -
  note T = required_fields_fail
  have a1: "soup_find None [(''class'', ''Hero-title'')] untitled_site_page = None"
    by code_simp
  note c1 = T [THEN conjunct1, rule_format, OF a1]
  have a2: "soup_find (Some ''span'') [(''itemprop'', ''telephone'')] phoneless_site_page = None"
    by code_simp
  note c2 = T [THEN conjunct2, THEN conjunct1, rule_format, OF a2]
  have a3: "fetch_with_CACHE_DICT example_env ''https://www.nps.gov/isro/index.htm'' fresh_world =
     (Inr (JStr ''<html>a page</html>''),
      fresh_world\<lparr>CACHE_DICT := JDict [(''https://www.nps.gov/isro/index.htm'', JStr ''<html>a page</html>'')],
        file_contents := Some (example_dumps
          (JDict [(''https://www.nps.gov/isro/index.htm'', JStr ''<html>a page</html>'')])),
        requests_sent := [Get ''https://www.nps.gov/isro/index.htm'' []], seconds_slept := 1,
        printed := [''Fetching'']\<rparr>)"
    by code_simp
  have a4: "site_of_soup (html_parser example_env ''<html>a page</html>'') = Inl AttributeError"
    by code_simp
  note c3 = T [THEN conjunct2, THEN conjunct2, rule_format, OF a3 a4]
  from a1 c1 a2 c2 a3 a4 c3 show ?thesis by (intro conjI)
qed

section \<open>The region index\<close>

text \<open>\<^verbatim>\<open>build_state_url_dict\<close> on the text of the index page.\<close>

lemma build_state_url_dict_of_page:
  assumes "fetch_with_CACHE_DICT E (BASE_URL @ STATES_INDEX_PATH) w = (Inr (JStr index_text), w')"
  shows "build_state_url_dict E w = (states_of_soup (html_parser E index_text), w')"
  using assms by (simp add: build_state_url_dict_def BeautifulSoup_def)








text \<open>Two entries with the same key: the dict has the value of the second.\<close>

lemma later_entry_replaces_earlier:
  "states_of_soup (index_page [state_item ''Michigan'' ''/state/mi/index.htm'',
                               state_item '' MICHIGAN '' ''/state/mn/index.htm'']) =
     Inr [(''michigan'', ''https://www.nps.gov/state/mn/index.htm'')]"
  by code_simp

section \<open>The fields of a nearby place\<close>

lemma result_field_of_fields:
  "getitem_nat results i = Inr entry \<Longrightarrow> getitem_str entry ''fields'' = Inr (JDict f) \<Longrightarrow>
   result_field results i k = dict_getitem f k"
  by (simp add: result_field_def)

lemma dict_getitem_cases:
  "dict_getitem f k = Inl KeyError \<or> (\<exists>v. dict_getitem f k = Inr v)"
  by (simp add: dict_getitem_def split: option.splits)

lemma place_of_result_fields:
  assumes "getitem_nat results i = Inr entry" and "getitem_str entry ''fields'' = Inr (JDict f)"
  shows "place_of_result results i =
     (case dict_getitem f ''name'' of Inl e \<Rightarrow> Inl e | Inr nm \<Rightarrow>
      case dict_getitem f ''group_sic_code_ext'' of Inl e \<Rightarrow> Inl e | Inr code \<Rightarrow>
      case (if truthy code then dict_getitem f ''group_sic_code_name_ext''
            else Inr (JStr ''no category'')) of Inl e \<Rightarrow> Inl e | Inr cat \<Rightarrow>
      case dict_getitem f ''address'' of Inl e \<Rightarrow> Inl e | Inr a \<Rightarrow>
      case dict_getitem f ''city'' of Inl e \<Rightarrow> Inl e | Inr c \<Rightarrow>
        Inr \<lparr>place_name = nm, place_category = cat,
             place_address = (if truthy a then a else JStr ''no address''),
             place_city = (if truthy c then c else JStr ''no city'')\<rparr>)"
  unfolding place_of_result_def result_field_of_fields [OF assms]
  by (simp split: sum.splits)

text \<open>
  Claim C8, as the code has it. For an entry of the results whose \<^verbatim>\<open>fields\<close> is a dict
  with the keys \<^verbatim>\<open>name\<close>, \<^verbatim>\<open>group_sic_code_ext\<close>, \<^verbatim>\<open>address\<close> and \<^verbatim>\<open>city\<close> (and
  \<^verbatim>\<open>group_sic_code_name_ext\<close> when \<^verbatim>\<open>group_sic_code_ext\<close> is truthy), the category is
  \<^verbatim>\<open>'no category'\<close> when \<^verbatim>\<open>group_sic_code_ext\<close> is falsy, the address \<^verbatim>\<open>'no address'\<close> and
  the city \<^verbatim>\<open>'no city'\<close> when the field is falsy, and the field's value otherwise. When
  one of the four keys is absent the lookup raises \<^verbatim>\<open>KeyError\<close>.
\<close>

theorem nearby_place_fallbacks:
  assumes "getitem_nat results i = Inr entry" and "getitem_str entry ''fields'' = Inr (JDict f)"
  shows "(dict_getitem f ''name'' = Inr nm \<longrightarrow>
          dict_getitem f ''group_sic_code_ext'' = Inr code \<longrightarrow>
          dict_getitem f ''address'' = Inr a \<longrightarrow>
          dict_getitem f ''city'' = Inr c \<longrightarrow>
          (truthy code \<longrightarrow> dict_getitem f ''group_sic_code_name_ext'' = Inr cn) \<longrightarrow>
            place_of_result results i =
              Inr \<lparr>place_name = nm,
                   place_category = (if truthy code then cn else JStr ''no category''),
                   place_address = (if truthy a then a else JStr ''no address''),
                   place_city = (if truthy c then c else JStr ''no city'')\<rparr>) \<and>
         (dict_getitem f ''name'' = Inl KeyError \<or>
          dict_getitem f ''group_sic_code_ext'' = Inl KeyError \<or>
          dict_getitem f ''address'' = Inl KeyError \<or>
          dict_getitem f ''city'' = Inl KeyError \<longrightarrow>
            place_of_result results i = Inl KeyError)"
proof (intro conjI impI)
  assume "dict_getitem f ''name'' = Inr nm" "dict_getitem f ''group_sic_code_ext'' = Inr code"
    "dict_getitem f ''address'' = Inr a" "dict_getitem f ''city'' = Inr c"
    "truthy code \<longrightarrow> dict_getitem f ''group_sic_code_name_ext'' = Inr cn"
  then show "place_of_result results i =
              Inr \<lparr>place_name = nm,
                   place_category = (if truthy code then cn else JStr ''no category''),
                   place_address = (if truthy a then a else JStr ''no address''),
                   place_city = (if truthy c then c else JStr ''no city'')\<rparr>"
    by (simp add: place_of_result_fields [OF assms])
next
  assume absent: "dict_getitem f ''name'' = Inl KeyError \<or>
          dict_getitem f ''group_sic_code_ext'' = Inl KeyError \<or>
          dict_getitem f ''address'' = Inl KeyError \<or>
          dict_getitem f ''city'' = Inl KeyError"
  have only_key_error: "\<And>k e. dict_getitem f k = Inl e \<Longrightarrow> e = KeyError"
    by (simp add: dict_getitem_def split: option.splits)
  from absent show "place_of_result results i = Inl KeyError"
    unfolding place_of_result_fields [OF assms]
    by (auto split: sum.splits dest: only_key_error)
qed

theorem nearby_place_fallbacks_witness:
  "getitem_nat (JList [place_entry sparse_fields]) 0 = Inr (place_entry sparse_fields) \<and>
   getitem_str (place_entry sparse_fields) ''fields'' = Inr (JDict sparse_fields) \<and>
   dict_getitem sparse_fields ''name'' = Inr (JStr ''Keweenaw Co-op'') \<and>
   dict_getitem sparse_fields ''group_sic_code_ext'' = Inr (JStr []) \<and>
   dict_getitem sparse_fields ''address'' = Inr JNull \<and>
   dict_getitem sparse_fields ''city'' = Inr (JStr ''Hancock'') \<and>
   \<not> truthy (JStr []) \<and>
   place_of_result (JList [place_entry sparse_fields]) 0 =
     Inr \<lparr>place_name = JStr ''Keweenaw Co-op'', place_category = JStr ''no category'',
          place_address = JStr ''no address'', place_city = JStr ''Hancock''\<rparr> \<and>
   getitem_nat (JList [place_entry addressless_fields]) 0 = Inr (place_entry addressless_fields) \<and>
   getitem_str (place_entry addressless_fields) ''fields'' = Inr (JDict addressless_fields) \<and>
   dict_getitem addressless_fields ''address'' = Inl KeyError \<and>
   place_of_result (JList [place_entry addressless_fields]) 0 = Inl KeyError"
proof -
  have a1: "getitem_nat (JList [place_entry sparse_fields]) 0 = Inr (place_entry sparse_fields)"
    by simp
  have a2: "getitem_str (place_entry sparse_fields) ''fields'' = Inr (JDict sparse_fields)"
    by code_simp
  have a3: "dict_getitem sparse_fields ''name'' = Inr (JStr ''Keweenaw Co-op'')"
    by code_simp
  have a4: "dict_getitem sparse_fields ''group_sic_code_ext'' = Inr (JStr [])"
    by code_simp
  have a5: "dict_getitem sparse_fields ''address'' = Inr JNull"
    by code_simp
  have a6: "dict_getitem sparse_fields ''city'' = Inr (JStr ''Hancock'')"
    by code_simp
  have a7: "\<not> truthy (JStr [])"
    by simp
  have a8: "truthy (JStr []) \<Longrightarrow> dict_getitem sparse_fields ''group_sic_code_name_ext'' = Inr JNull"
    by simp
  have v1: "(if truthy (JStr []) then JNull else JStr ''no category'') = JStr ''no category''"
    by simp
  have v2: "(if truthy JNull then JNull else JStr ''no address'') = JStr ''no address''"
    by simp
  have v3: "(if truthy (JStr ''Hancock'') then JStr ''Hancock'' else JStr ''no city'') = JStr ''Hancock''"
    by simp
  note c1 = nearby_place_fallbacks [OF a1 a2, THEN conjunct1, rule_format, OF a3 a4 a5 a6 a8,
      unfolded v1 v2 v3]
  have b1: "getitem_nat (JList [place_entry addressless_fields]) 0 = Inr (place_entry addressless_fields)"
    by simp
  have b2: "getitem_str (place_entry addressless_fields) ''fields'' = Inr (JDict addressless_fields)"
    by code_simp
  have b3: "dict_getitem addressless_fields ''address'' = Inl KeyError"
    by code_simp
  have c2: "place_of_result (JList [place_entry addressless_fields]) 0 = Inl KeyError"
    by (rule nearby_place_fallbacks [OF b1 b2, THEN conjunct2, rule_format])
      (rule disjI2, rule disjI2, rule disjI1, rule b3)
  from a1 a2 a3 a4 a5 a6 a7 c1 b1 b2 b3 c2 show ?thesis by (intro conjI)
qed

text \<open>
  An absent key is not a falsy value: with \<^verbatim>\<open>address\<close> present and \<^verbatim>\<open>None\<close> the place has
  the address \<^verbatim>\<open>'no address'\<close>; with the key absent there is no place,
  \<^verbatim>\<open>formatted_nearby_places\<close> raises \<^verbatim>\<open>KeyError\<close> and prints nothing.
\<close>

theorem absent_key_counterexample:
  "place_of_result (JList [place_entry sparse_fields]) 0 =
     Inr \<lparr>place_name = JStr ''Keweenaw Co-op'', place_category = JStr ''no category'',
          place_address = JStr ''no address'', place_city = JStr ''Hancock''\<rparr> \<and>
   dict_getitem addressless_fields ''address'' = Inl KeyError \<and>
   place_of_result (JList [place_entry addressless_fields]) 0 = Inl KeyError \<and>
   formatted_nearby_places example_env
     (JDict [(''searchResults'', JList [place_entry addressless_fields])]) fresh_world =
     (Inl KeyError, fresh_world)"
  by code_simp

section \<open>The selection at the detail prompt\<close>

text \<open>
  A number above the length of the list is reported, and the loop asks again: no site is
  selected, nothing is requested. The input \<^verbatim>\<open>0\<close> passes the test
  \<^verbatim>\<open>int(user_input) <= int(len(state_sites))\<close>, and \<^verbatim>\<open>state_sites[0-1]\<close> is the last site
  of a list that is not empty.
\<close>

lemma isnumeric_not_command: "isnumeric s \<Longrightarrow> s \<noteq> ''exit'' \<and> s \<noteq> ''back''"
proof -
  have "\<not> isnumeric ''exit''" "\<not> isnumeric ''back''" by code_simp+
  then show "isnumeric s \<Longrightarrow> s \<noteq> ''exit'' \<and> s \<noteq> ''back''" by metis
qed

lemma out_of_range_reported:
  assumes "isnumeric user_input" and "py_int user_input = Inr n"
    and "int (length state_sites) < n"
  shows "detail_prompt_pass E state_sites user_input w =
           (Continue, print ''Index out of range. Please enter a new number'' w)"
  using assms isnumeric_not_command [OF assms(1)]
  by (simp add: detail_prompt_pass_def detail_search_def)

lemma py_int_zero: "py_int ''0'' = Inr 0"
  by code_simp

lemma getitem_minus_one: "xs \<noteq> [] \<Longrightarrow> list_getitem xs (- 1) = Inr (last xs)"
  by (cases xs rule: rev_cases) (auto simp: list_getitem_def nth_append)

lemma zero_selects_last_site:
  assumes "state_sites \<noteq> []"
  shows "detail_search E state_sites ''0'' w =
     (case get_nearby_places E (last state_sites) w of
        (Inl e, w1) \<Rightarrow> (Inl e, w1)
      | (Inr nearby_list, w1) \<Rightarrow>
          formatted_nearby_places E nearby_list
            (print (replicate 50 CHR ''-'')
              (print (''Places near '' @ name (last state_sites))
                (print (replicate 50 CHR ''-'') w1))))"
  unfolding detail_search_def py_int_zero
  by (simp add: getitem_minus_one [OF assms] Let_def split: prod.splits sum.splits)

text \<open>
  Claim C9, at the input \<^verbatim>\<open>0\<close> with two sites listed: the pass selects the second site,
  requests its nearby places and prints them, where the claim has the selection
  reported as invalid and no lookup made.
\<close>

theorem selection_zero_looks_up_last_site:
  "fst (detail_prompt_pass example_env [isle_royale, sleeping_bear] ''0'' fresh_world) = Continue \<and>
   requests_sent (snd (detail_prompt_pass example_env [isle_royale, sleeping_bear] ''0'' fresh_world)) =
     [Get mapquest_url (nearby_params example_env sleeping_bear)] \<and>
   printed (snd (detail_prompt_pass example_env [isle_royale, sleeping_bear] ''0'' fresh_world)) =
     [''Fetching'', replicate 50 CHR ''-'', ''Places near Sleeping Bear Dunes'',
      replicate 50 CHR ''-'', ''- Keweenaw Co-op (Grocers): no address, Hancock'']"
  by code_simp

section \<open>The cache of \<^verbatim>\<open>get_nearby_places\<close>\<close>

text \<open>
  \<^verbatim>\<open>get_nearby_places\<close> leaves the module-level \<^verbatim>\<open>CACHE_DICT\<close> as it was and does not
  depend on it: its cache is what \<^verbatim>\<open>open_cache()\<close> reads from the file during the call.
\<close>

lemma open_cache_ignores_CACHE_DICT: "open_cache E (w\<lparr>CACHE_DICT := c\<rparr>) = open_cache E w"
  by (simp add: open_cache_def read_cache_file_def split: option.splits)

lemma get_nearby_places_keeps_CACHE_DICT:
  "CACHE_DICT (snd (get_nearby_places E site_object w)) = CACHE_DICT w"
  by (auto simp: get_nearby_places_def requests_get_def save_cache_def print_def Let_def
      split: sum.splits json.splits option.splits if_splits)

lemma get_nearby_places_ignores_CACHE_DICT:
  "fst (get_nearby_places E site_object (w\<lparr>CACHE_DICT := c\<rparr>)) =
   fst (get_nearby_places E site_object w)"
  by (auto simp: get_nearby_places_def open_cache_ignores_CACHE_DICT requests_get_def
      save_cache_def print_def Let_def
      split: sum.splits json.splits option.splits if_splits)

text \<open>
  Claim C10, on a run that starts without a cache file: the module is loaded, with
  \<^verbatim>\<open>CACHE_DICT\<close> empty. The lookup for Isle Royale
  writes its reply to the file and not to \<^verbatim>\<open>CACHE_DICT\<close>; the fetch of the index page
  then saves \<^verbatim>\<open>CACHE_DICT\<close>, which has the page only, over the file; the same lookup,
  repeated, loads the file again, finds no reply and sends its request a second time.
  The claim has one mapping, loaded once, that every fetch reads and updates.
\<close>

theorem reload_loses_cached_reply:
  "load_module example_env fresh_world = fresh_world \<and>
   get_nearby_places example_env isle_royale fresh_world = (Inr example_reply, after_nearby_fetch) \<and>
   CACHE_DICT after_nearby_fetch = JDict [] \<and>
   open_cache example_env after_nearby_fetch = JDict [(isle_royale_key, example_reply)] \<and>
   fetch_with_CACHE_DICT example_env index_url after_nearby_fetch = (Inr example_page, after_both_fetches) \<and>
   open_cache example_env after_both_fetches = JDict [(index_url, example_page)] \<and>
   fst (get_nearby_places example_env isle_royale after_both_fetches) = Inr example_reply \<and>
   requests_sent (snd (get_nearby_places example_env isle_royale after_both_fetches)) =
     [Get mapquest_url (nearby_params example_env isle_royale), Get index_url [],
      Get mapquest_url (nearby_params example_env isle_royale)]"
  by code_simp

end
